theory Spec2Isabelle
  imports
    Complex_Main
    "HOL-Library.Word"
    "HOL-Library.Sublist"
    "HOL-Library.List_Lexorder"
    "HOL-Library.Char_ord"
begin

unbundle bit_operations_syntax

section \<open>incognitomail: persistence, random tokens, mail-system writer, command server\<close>

text \<open>
  A shallow embedding of the Go package \<^verbatim>\<open>incognitomail\<close>:
  \<^verbatim>\<open>persistence.go\<close> (accounts and handles in a bolt database),
  \<^verbatim>\<open>random.go\<close> (random tokens), \<^verbatim>\<open>postfixwriter.go\<close>
  (the postfix map file) and the server (\<^verbatim>\<open>SendCommand\<close>,
  \<^verbatim>\<open>handleCommands\<close> and the operations they call).

  Go strings and byte slices are \<open>string\<close> (a list of 8-bit characters).
  A Go call either returns or panics; a call that blocks for ever or loops for ever
  has no result at all. The model keeps the three apart: \<open>Panic\<close> and
  \<open>Return\<close> are the two values of \<open>exec\<close>, and a function that may
  not come back yields an \<open>option\<close> whose \<open>None\<close> is "never returns".

  Of the libraries the program calls, the model has what decides the result of a
  call. In bolt a missing bucket is \<open>nil\<close>, and \<^verbatim>\<open>Put\<close> refuses an empty key,
  a key longer than \<^verbatim>\<open>MaxKeySize\<close> and a value longer than \<^verbatim>\<open>MaxValueSize\<close>;
  \<^verbatim>\<open>CreateBucket\<close> refuses an empty name and an existing bucket.
  \<^verbatim>\<open>bufio.Scanner\<close> delivers a file line by line, each line without its newline
  and without a carriage return before it, and gives up at a line of
  \<^verbatim>\<open>MaxScanTokenSize\<close> bytes or more. Opening the map file, writing to a file,
  making the temporary file and renaming it may each fail. Outside the model:
  the faults the bolt library may meet when it reads and writes its own file, a
  failing read of the map file and a failing \<^verbatim>\<open>Close\<close>. The clock, the random source and the \<^verbatim>\<open>postmap\<close>
  program are inputs of the functions that use them.
\<close>

subsection \<open>Errors and outcomes\<close>

type_synonym bytes = string

datatype error =
    ErrEmptySecret
  | ErrEmptyTarget
  | ErrAccountNotFound
  | ErrAccountExists
  | ErrHandleNotFound
  | ErrHandleExists
  | ErrServerNotStarted
  | ErrLockFileAlreadyExists
  | ErrLockFileNotFound
  | ErrEmptyCommand
  | ErrUnknownCommand
  | ErrWrongCommand
  | ErrInvalidPermission
  | ErrKeyRequired
  | ErrKeyTooLarge
  | ErrValueTooLarge
  | ErrBucketNameRequired
  | ErrBucketExists
  | ErrBucketNotFound
  | ErrExternal string

text \<open>
  The first thirteen are the package's own error values (\<^verbatim>\<open>errors.New\<close> in
  persistence.go and in the server file), the next six are bolt's, and
  \<open>ErrExternal\<close> stands for an error value made outside the package (the operating
  system, \<^verbatim>\<open>crypto/rand\<close>, \<^verbatim>\<open>time\<close>, a failed \<^verbatim>\<open>postmap\<close> run),
  with its message. Go compares error values by identity, so such a value is never
  equal to one of the package's own.
\<close>

datatype 'a exec = Panic | Return 'a

text \<open>The outcome of a step inside a bolt transaction: a panic, an error, or a value.\<close>

datatype 'a step = Crash | Fail error | Next 'a

fun and_then :: "'a step \<Rightarrow> ('a \<Rightarrow> 'b step) \<Rightarrow> 'b step" where
  "and_then Crash f = Crash"
| "and_then (Fail e) f = Fail e"
| "and_then (Next x) f = f x"

subsection \<open>The bolt database\<close>

text \<open>
  A bolt database is a tree of buckets. This program only ever creates buckets at the
  root and only ever puts plain key/value pairs into them, so a database is a finite
  map from bucket names to buckets and a bucket is a list of key/value pairs, kept in
  the byte order of its keys (the order in which bolt's cursor visits them).
  \<^verbatim>\<open>tx.Bucket(name)\<close> is \<open>nil\<close> for a missing bucket; every method called on a
  \<open>nil\<close> bucket dereferences it and panics.
\<close>

type_synonym bucket = "(bytes \<times> bytes) list"

type_synonym store = "bytes \<Rightarrow> bucket option"

definition targetsBucketName :: bytes where
  "targetsBucketName = ''targets''"

definition accountsBucketName :: bytes where
  "accountsBucketName = ''accounts''"

definition handlesBucketName :: bytes where
  "handlesBucketName = ''handles''"

fun insert_key :: "bytes \<Rightarrow> bytes \<Rightarrow> bucket \<Rightarrow> bucket" where
  "insert_key k v [] = [(k, v)]"
| "insert_key k v ((k', v') # kvs) =
     (if k = k' then (k, v) # kvs
      else if k < k' then (k, v) # (k', v') # kvs
      else (k', v') # insert_key k v kvs)"

fun remove_key :: "bytes \<Rightarrow> bucket \<Rightarrow> bucket" where
  "remove_key k [] = []"
| "remove_key k ((k', v') # kvs) =
     (if k = k' then remove_key k kvs else (k', v') # remove_key k kvs)"

text \<open>\<^verbatim>\<open>tx.Bucket(name)\<close>: the bucket, or \<open>None\<close> for Go's \<open>nil\<close>.\<close>

definition tx_Bucket :: "store \<Rightarrow> bytes \<Rightarrow> bucket option" where
  "tx_Bucket tx name = tx name"

text \<open>
  \<^verbatim>\<open>tx.CreateBucket(name)\<close>: refuses the empty name and an existing bucket; it
  does not look at the length of the name.
\<close>

definition tx_CreateBucket :: "store \<Rightarrow> bytes \<Rightarrow> store step" where
  "tx_CreateBucket tx name =
     (if name = [] then Fail ErrBucketNameRequired
      else if tx name = None then Next (tx(name \<mapsto> []))
      else Fail ErrBucketExists)"

text \<open>\<^verbatim>\<open>tx.DeleteBucket(name)\<close>.\<close>

definition tx_DeleteBucket :: "store \<Rightarrow> bytes \<Rightarrow> store step" where
  "tx_DeleteBucket tx name =
     (if tx name = None then Fail ErrBucketNotFound else Next (tx(name := None)))"

text \<open>
  The methods of a bucket. The bucket is given by its name and looked up when the
  method runs, which is when the source's \<^verbatim>\<open>b := tx.Bucket(name)\<close> would have
  been \<open>nil\<close> too: no function of the program creates or deletes a bucket between
  taking a bucket and using it.
\<close>

definition bucket_Get :: "store \<Rightarrow> bytes \<Rightarrow> bytes \<Rightarrow> bytes option step" where
  "bucket_Get tx name key =
     (case tx name of None \<Rightarrow> Crash | Some b \<Rightarrow> Next (map_of b key))"

text \<open>
  \<^verbatim>\<open>b.Put(key, value)\<close> checks the key and the value, in this order, before it
  writes: \<^verbatim>\<open>MaxKeySize = 32768\<close> and \<^verbatim>\<open>MaxValueSize = (1 << 31) - 2\<close> are
  bolt's constants.
\<close>

definition MaxKeySize :: nat where
  "MaxKeySize = 32768"

definition MaxValueSize :: nat where
  "MaxValueSize = 2 ^ 31 - 2"

definition bucket_Put :: "store \<Rightarrow> bytes \<Rightarrow> bytes \<Rightarrow> bytes \<Rightarrow> store step" where
  "bucket_Put tx name key val =
     (case tx name of
        None \<Rightarrow> Crash
      | Some b \<Rightarrow>
          if length key = 0 then Fail ErrKeyRequired
          else if length key > MaxKeySize then Fail ErrKeyTooLarge
          else if length val > MaxValueSize then Fail ErrValueTooLarge
          else Next (tx(name \<mapsto> insert_key key val b)))"

definition bucket_Delete :: "store \<Rightarrow> bytes \<Rightarrow> bytes \<Rightarrow> store step" where
  "bucket_Delete tx name key =
     (case tx name of None \<Rightarrow> Crash | Some b \<Rightarrow> Next (tx(name \<mapsto> remove_key key b)))"

text \<open>
  \<^verbatim>\<open>b.ForEach(fn)\<close> with the callback of \<^verbatim>\<open>ListAccountHandles\<close>, which
  appends each key to \<open>result\<close> and never fails.
\<close>

fun collect_keys :: "bucket \<Rightarrow> bytes list \<Rightarrow> bytes list" where
  "collect_keys [] result = result"
| "collect_keys ((k, v) # kvs) result = collect_keys kvs (result @ [k])"

definition bucket_ForEach :: "store \<Rightarrow> bytes \<Rightarrow> bytes list step" where
  "bucket_ForEach tx name =
     (case tx name of None \<Rightarrow> Crash | Some b \<Rightarrow> Next (collect_keys b []))"

text \<open>
  \<^verbatim>\<open>db.Update(fn)\<close> commits what \<open>fn\<close> did when \<open>fn\<close> returns \<open>nil\<close>, rolls
  it back and returns the error when \<open>fn\<close> returns one, and lets a panic of \<open>fn\<close>
  through. \<^verbatim>\<open>db.View(fn)\<close> is the same for a function that only reads.
\<close>

definition db_Update :: "store \<Rightarrow> (store \<Rightarrow> store step) \<Rightarrow> (store \<times> error option) exec" where
  "db_Update db fn =
     (case fn db of
        Crash \<Rightarrow> Panic
      | Fail e \<Rightarrow> Return (db, Some e)
      | Next db' \<Rightarrow> Return (db', None))"

definition db_View :: "store \<Rightarrow> (store \<Rightarrow> 'a step) \<Rightarrow> (error + 'a) exec" where
  "db_View db fn =
     (case fn db of
        Crash \<Rightarrow> Panic
      | Fail e \<Rightarrow> Return (Inl e)
      | Next x \<Rightarrow> Return (Inr x))"

subsection \<open>persistence.go\<close>

text \<open>\<^verbatim>\<open>OpenIncognitoData\<close> on a new database file: the three static buckets, empty.\<close>

definition OpenIncognitoData :: store where
  "OpenIncognitoData =
     (Map.empty(targetsBucketName \<mapsto> [], accountsBucketName \<mapsto> [], handlesBucketName \<mapsto> []))"

text \<open>
  \<^verbatim>\<open>NewAccount\<close>. The argument \<open>now\<close> is what \<^verbatim>\<open>time.Now().GobEncode()\<close>
  returns when the transaction asks for it: the message of an error, or the encoded
  time.
\<close>

definition gob_time :: "string + bytes \<Rightarrow> bytes step" where
  "gob_time now = (case now of Inl msg \<Rightarrow> Fail (ErrExternal msg) | Inr t \<Rightarrow> Next t)"

definition NewAccount_tx :: "bytes \<Rightarrow> bytes \<Rightarrow> string + bytes \<Rightarrow> store \<Rightarrow> store step" where
  "NewAccount_tx secret target now tx =
     (if tx_Bucket tx secret \<noteq> None then Fail ErrAccountExists
      else
        and_then (tx_CreateBucket tx secret) (\<lambda>tx1.
        and_then (bucket_Put tx1 targetsBucketName secret target) (\<lambda>tx2.
        and_then (gob_time now) (\<lambda>t.
        bucket_Put tx2 accountsBucketName secret t))))"

definition NewAccount :: "store \<Rightarrow> bytes \<Rightarrow> bytes \<Rightarrow> string + bytes \<Rightarrow> (store \<times> error option) exec" where
  "NewAccount db secret target now =
     (if secret = [] then Return (db, Some ErrEmptySecret)
      else if target = [] then Return (db, Some ErrEmptyTarget)
      else db_Update db (NewAccount_tx secret target now))"

text \<open>\<^verbatim>\<open>ListAccountHandles\<close>.\<close>

definition ListAccountHandles :: "store \<Rightarrow> bytes \<Rightarrow> (error + bytes list) exec" where
  "ListAccountHandles db secret =
     (if secret = [] then Return (Inl ErrEmptySecret)
      else db_View db (\<lambda>tx. bucket_ForEach tx secret))"

text \<open>
  \<^verbatim>\<open>DeleteAccountHandle\<close>. The error the transaction returns is dropped, and so are
  the errors of the two \<^verbatim>\<open>Delete\<close> calls.
\<close>

definition DeleteAccountHandle_tx :: "bytes \<Rightarrow> bytes \<Rightarrow> store \<Rightarrow> store step" where
  "DeleteAccountHandle_tx secret handle tx =
     (if tx_Bucket tx secret = None then Fail ErrAccountNotFound
      else
        and_then (bucket_Delete tx secret handle) (\<lambda>tx1.
        bucket_Delete tx1 handlesBucketName handle))"

definition DeleteAccountHandle :: "store \<Rightarrow> bytes \<Rightarrow> bytes \<Rightarrow> store exec" where
  "DeleteAccountHandle db secret handle =
     (if secret = [] \<or> handle = [] then Return db
      else
        case db_Update db (DeleteAccountHandle_tx secret handle) of
          Panic \<Rightarrow> Panic
        | Return (db', _) \<Rightarrow> Return db')"

text \<open>The loop \<^verbatim>\<open>for _, v := range handles { a.DeleteAccountHandle(secret, v) }\<close>.\<close>

fun delete_handles :: "store \<Rightarrow> bytes \<Rightarrow> bytes list \<Rightarrow> store exec" where
  "delete_handles db secret [] = Return db"
| "delete_handles db secret (v # handles) =
     (case DeleteAccountHandle db secret v of
        Panic \<Rightarrow> Panic
      | Return db' \<Rightarrow> delete_handles db' secret handles)"

text \<open>
  \<^verbatim>\<open>DeleteAccount\<close>. Inside its transaction every error is dropped:
  \<^verbatim>\<open>tx.DeleteBucket\<close> may fail and the function goes on.
\<close>

definition DeleteAccount_tx :: "bytes \<Rightarrow> store \<Rightarrow> store step" where
  "DeleteAccount_tx secret tx =
     (let tx1 = (case tx_DeleteBucket tx secret of Next t \<Rightarrow> t | _ \<Rightarrow> tx) in
        and_then (bucket_Delete tx1 targetsBucketName secret) (\<lambda>tx2.
        bucket_Delete tx2 accountsBucketName secret))"

definition DeleteAccount :: "store \<Rightarrow> bytes \<Rightarrow> store exec" where
  "DeleteAccount db secret =
     (if secret = [] then Return db
      else
        case ListAccountHandles db secret of
          Panic \<Rightarrow> Panic
        | Return (Inl err) \<Rightarrow> Return db
        | Return (Inr handles) \<Rightarrow>
            (case delete_handles db secret handles of
               Panic \<Rightarrow> Panic
             | Return db1 \<Rightarrow>
                 (case db_Update db1 (DeleteAccount_tx secret) of
                    Panic \<Rightarrow> Panic
                  | Return (db2, _) \<Rightarrow> Return db2)))"

text \<open>\<^verbatim>\<open>NewAccountHandle\<close>.\<close>

definition NewAccountHandle_tx :: "bytes \<Rightarrow> bytes \<Rightarrow> string + bytes \<Rightarrow> store \<Rightarrow> store step" where
  "NewAccountHandle_tx secret handle now tx =
     (if tx_Bucket tx secret = None then Fail ErrAccountNotFound
      else
        and_then (bucket_Get tx handlesBucketName handle) (\<lambda>h.
        if h \<noteq> None then Fail ErrHandleExists
        else
          and_then (gob_time now) (\<lambda>t.
          and_then (bucket_Put tx secret handle t) (\<lambda>tx1.
          bucket_Put tx1 handlesBucketName handle t))))"

definition NewAccountHandle :: "store \<Rightarrow> bytes \<Rightarrow> bytes \<Rightarrow> string + bytes \<Rightarrow> (store \<times> error option) exec" where
  "NewAccountHandle db secret handle now =
     (if secret = [] then Return (db, Some ErrEmptySecret)
      else db_Update db (NewAccountHandle_tx secret handle now))"

text \<open>\<^verbatim>\<open>GetAccountTarget\<close>, \<^verbatim>\<open>HasAccount\<close> and \<^verbatim>\<open>HasHandleGlobal\<close>.\<close>

definition GetAccountTarget :: "store \<Rightarrow> bytes \<Rightarrow> (error + bytes) exec" where
  "GetAccountTarget db secret =
     (if secret = [] then Return (Inl ErrEmptySecret)
      else
        db_View db (\<lambda>tx.
          and_then (bucket_Get tx targetsBucketName secret) (\<lambda>t.
          case t of None \<Rightarrow> Fail ErrAccountNotFound | Some target \<Rightarrow> Next target)))"

definition lookup_exists :: "store \<Rightarrow> bytes \<Rightarrow> bytes \<Rightarrow> unit step" where
  "lookup_exists tx name key =
     and_then (bucket_Get tx name key) (\<lambda>t.
     case t of None \<Rightarrow> Fail ErrAccountNotFound | Some _ \<Rightarrow> Next ())"

definition HasAccount :: "store \<Rightarrow> bytes \<Rightarrow> bool exec" where
  "HasAccount db secret =
     (if secret = [] then Return False
      else
        case db_View db (\<lambda>tx. lookup_exists tx accountsBucketName secret) of
          Panic \<Rightarrow> Panic
        | Return err \<Rightarrow> Return (\<not> isl err))"

definition HasHandleGlobal :: "store \<Rightarrow> bytes \<Rightarrow> bool exec" where
  "HasHandleGlobal db handle =
     (if handle = [] then Return False
      else
        case db_View db (\<lambda>tx. lookup_exists tx handlesBucketName handle) of
          Panic \<Rightarrow> Panic
        | Return err \<Rightarrow> Return (\<not> isl err))"

subsection \<open>random.go\<close>

definition allowedCharacters :: string where
  "allowedCharacters = ''abcdefghijklmnopqrstuvwxyzABCDEFGHIJKLMNOPQRSTUVWXYZ0123456789''"

definition allowedCharactersNum :: nat where
  "allowedCharactersNum = length allowedCharacters"

text \<open>
  \<^verbatim>\<open>uint(math.Ceil(math.Log2(float64(allowedCharactersNum))))\<close>, with the logarithm
  of the real numbers in place of the floating-point one.
\<close>

definition bitsPerIndex :: nat where
  "bitsPerIndex = nat \<lceil>log 2 (real allowedCharactersNum)\<rceil>"

definition indexMask :: "8 word" where
  "indexMask = push_bit bitsPerIndex 1 - 1"

text \<open>
  What \<^verbatim>\<open>rand.Read(buf)\<close> does: it fails with an error, or it fills the whole
  buffer, byte \<open>i\<close> of the buffer being \<open>f i\<close>.
\<close>

datatype rand_read = ReadFails string | ReadFills "nat \<Rightarrow> 8 word"

text \<open>
  The loop of \<^verbatim>\<open>generateRandomString\<close>. Go checks every index: reading
  \<open>buf[i]\<close> or \<open>allowedCharacters[idx]\<close> or writing \<open>result[i]\<close> out of range
  panics.
\<close>

function fill_result :: "8 word list \<Rightarrow> string \<Rightarrow> nat \<Rightarrow> nat \<Rightarrow> string exec" where
  "fill_result buf result sz i =
     (if i < sz then
        (if i < length buf \<and> i < length result then
           (let idx = unat ((buf ! i) AND indexMask) mod allowedCharactersNum in
              if idx < length allowedCharacters
              then fill_result buf (result[i := allowedCharacters ! idx]) sz (i + 1)
              else Panic)
         else Panic)
      else Return result)"
  by pat_completeness auto
termination
  by (relation "measure (\<lambda>(buf, result, sz, i). sz - i)") auto

declare fill_result.simps [simp del]

text \<open>
  \<^verbatim>\<open>generateRandomString\<close>. \<^verbatim>\<open>make([]byte, size)\<close> panics for a negative
  size (\<open>sz\<close>).
\<close>

definition generateRandomString :: "int \<Rightarrow> rand_read \<Rightarrow> (error + string) exec" where
  "generateRandomString sz rd =
     (if sz < 0 then Panic
      else
        case rd of
          ReadFails msg \<Rightarrow> Return (Inl (ErrExternal msg))
        | ReadFills f \<Rightarrow>
            (case fill_result (map f [0..<nat sz]) (replicate (nat sz) (CHR 0x00)) (nat sz) 0 of
               Panic \<Rightarrow> Panic
             | Return result \<Rightarrow> Return (Inr result)))"

subsection \<open>postfixwriter.go\<close>

text \<open>
  The writer and the part of the world it works on: the map file (\<open>None\<close> when there
  is no such file, otherwise its bytes), the configured domain, the calls of the
  operating system that can fail, and the \<^verbatim>\<open>postmap\<close> program. \<open>fault p c\<close> is
  the message of the error the call \<open>c\<close> fails with, \<open>None\<close> when the call works; a
  write that fails is taken to write nothing. \<^verbatim>\<open>postmap\<close> fails or not depending
  on the file it finds (the function \<open>postmap\<close> gives the message of its failure),
  and its runs are recorded in \<open>postmap_runs\<close>, each with the content of the map
  file at that time.
\<close>

datatype syscall = OpenFile | WriteString | TempFile | Rename

record PostfixWriter =
  mapfile :: "bytes option"
  domain :: string
  fault :: "syscall \<Rightarrow> string option"
  postmap :: "bytes option \<Rightarrow> string option"
  postmap_runs :: "bytes option list"

definition invokePostmap :: "PostfixWriter \<Rightarrow> PostfixWriter \<times> error option" where
  "invokePostmap p =
     (p\<lparr>postmap_runs := postmap_runs p @ [mapfile p]\<rparr>,
      map_option ErrExternal (postmap p (mapfile p)))"

text \<open>
  \<^verbatim>\<open>AddHandle\<close> opens the file for appending, which creates it when it is
  missing, and writes the bytes of \<^verbatim>\<open>fmt.Sprintf("%s %s\n", fullHandle, t)\<close> at
  its end.
\<close>

definition AddHandle :: "PostfixWriter \<Rightarrow> string \<Rightarrow> string \<Rightarrow> PostfixWriter \<times> (error + string)" where
  "AddHandle p h t =
     (case fault p OpenFile of
        Some msg \<Rightarrow> (p, Inl (ErrExternal msg))
      | None \<Rightarrow>
          (let f = (case mapfile p of None \<Rightarrow> [] | Some bs \<Rightarrow> bs);
               fullHandle = h @ domain p
           in case fault p WriteString of
                Some msg \<Rightarrow> (p\<lparr>mapfile := Some f\<rparr>, Inl (ErrExternal msg))
              | None \<Rightarrow>
                  (case invokePostmap (p\<lparr>mapfile := Some (f @ fullHandle @ '' '' @ t @ [CHR 0x0A])\<rparr>) of
                     (p2, Some err) \<Rightarrow> (p2, Inl err)
                   | (p2, None) \<Rightarrow> (p2, Inr fullHandle))))"

text \<open>
  \<^verbatim>\<open>bufio.NewScanner(f)\<close> splits with \<^verbatim>\<open>bufio.ScanLines\<close> and has a buffer of
  at most \<^verbatim>\<open>MaxScanTokenSize = 64 * 1024\<close> bytes. A line is delivered when the
  buffer can hold it together with its newline, or, for a last line that no
  newline ends, when the buffer is not full once the file is read to its end: in
  both cases when the line has fewer than \<^verbatim>\<open>MaxScanTokenSize\<close> bytes. At a longer
  line \<^verbatim>\<open>Scan\<close> returns false, as it does at the end of the file, and the reason
  is left in \<^verbatim>\<open>scanner.Err()\<close>. \<^verbatim>\<open>dropCR\<close> is the function of that name in
  \<^verbatim>\<open>bufio\<close>. \<open>scan_tokens data\<close> is the list of the values \<^verbatim>\<open>scanner.Text()\<close>
  has in the rounds of the loop \<^verbatim>\<open>for scanner.Scan()\<close> over a file with the
  bytes \<open>data\<close>.
\<close>

definition MaxScanTokenSize :: nat where
  "MaxScanTokenSize = 64 * 1024"

definition dropCR :: "bytes \<Rightarrow> bytes" where
  "dropCR data = (if length data > 0 \<and> last data = CHR 0x0D then butlast data else data)"

definition first_line :: "bytes \<Rightarrow> bytes" where
  "first_line data = takeWhile (\<lambda>c. c \<noteq> CHR 0x0A) data"

function scan_tokens :: "bytes \<Rightarrow> bytes list" where
  "scan_tokens data =
     (if data = [] then []
      else if MaxScanTokenSize \<le> length (first_line data) then []
      else dropCR (first_line data) # scan_tokens (drop (length (first_line data) + 1) data))"
  by pat_completeness auto
termination
  by (relation "measure length") auto

declare scan_tokens.simps [simp del]

text \<open>
  The loop of \<^verbatim>\<open>RemoveHandle\<close> over the scanned lines; \<open>t\<close> is the temporary
  file and \<open>w\<close> tells whether a write to it works. The result of
  \<^verbatim>\<open>t.WriteString\<close> is dropped.
\<close>

fun copy_lines :: "bool \<Rightarrow> string \<Rightarrow> bytes list \<Rightarrow> bytes \<Rightarrow> bytes" where
  "copy_lines w h [] t = t"
| "copy_lines w h (line # ls) t =
     (if \<not> prefix h line
      then copy_lines w h ls (if w then t @ line @ [CHR 0x0A] else t)
      else copy_lines w h ls t)"

text \<open>
  \<^verbatim>\<open>RemoveHandle\<close>. After the loop it does not look at \<^verbatim>\<open>scanner.Err()\<close>, and
  it drops the result of \<^verbatim>\<open>os.Rename\<close>: when the renaming fails the map file
  stays as it was, and \<^verbatim>\<open>postmap\<close> runs all the same.
\<close>

definition RemoveHandle :: "PostfixWriter \<Rightarrow> string \<Rightarrow> PostfixWriter \<times> error option" where
  "RemoveHandle p h =
     (case mapfile p of
        None \<Rightarrow> (p, Some (ErrExternal ''open: no such file or directory''))
      | Some f \<Rightarrow>
          (case fault p OpenFile of
             Some msg \<Rightarrow> (p, Some (ErrExternal msg))
           | None \<Rightarrow>
               (case fault p TempFile of
                  Some msg \<Rightarrow> (p, Some (ErrExternal msg))
                | None \<Rightarrow>
                    (let t = copy_lines (fault p WriteString = None) h (scan_tokens f) [];
                         p1 = (if fault p Rename = None then p\<lparr>mapfile := Some t\<rparr> else p)
                     in invokePostmap p1))))"

text \<open>
  The content of a file viewed as a sequence of lines, for the statement about
  \<^verbatim>\<open>RemoveHandle\<close>: the pieces that a newline ends, and what follows the last
  newline when that is not empty. \<open>write_lines\<close> is the content of the file
  that has the given lines, a newline after each.
\<close>

fun split_lines :: "bytes \<Rightarrow> bytes \<Rightarrow> bytes list" where
  "split_lines line [] = (if line = [] then [] else [line])"
| "split_lines line (c # cs) =
     (if c = CHR 0x0A then line # split_lines [] cs else split_lines (line @ [c]) cs)"

definition file_lines :: "bytes \<Rightarrow> bytes list" where
  "file_lines f = split_lines [] f"

definition write_lines :: "bytes list \<Rightarrow> bytes" where
  "write_lines ls = concat (map (\<lambda>line. line @ [CHR 0x0A]) ls)"

subsection \<open>The server\<close>

record Server =
  persistence :: store
  mailSystemWriter :: PostfixWriter

datatype command =
    newHandleCommand string bytes
  | newAccountCommand string bytes
  | deleteHandleCommand string bytes bytes
  | deleteAccountCommand string bytes
  | terminateCommand

text \<open>
  The fields of the commands, in the order of the constructors' arguments:
  \<open>source\<close> and \<open>accountSecret\<close>; \<open>source\<close> and \<open>target\<close>;
  \<open>source\<close>, \<open>handle\<close> and \<open>secret\<close>; \<open>source\<close> and \<open>secret\<close>. The two
  channels of a command carry its answer back; in the model the answer is the value
  of the function that handles the command.
\<close>

definition accountSecretSize :: int where
  "accountSecretSize = 64"

definition handleSize :: int where
  "handleSize = 18"

text \<open>
  The loops of \<^verbatim>\<open>NewHandle\<close> and \<^verbatim>\<open>NewAccount\<close> that draw random strings
  until one is unused. \<open>rand k\<close> is what the \<open>k\<close>-th call of \<^verbatim>\<open>rand.Read\<close>
  does. Nothing bounds the number of rounds: \<open>None\<close> is the loop that never ends.
\<close>

partial_function (option) unused_handle :: "store \<Rightarrow> (nat \<Rightarrow> rand_read) \<Rightarrow> nat \<Rightarrow> (error + bytes) exec option" where
  "unused_handle db rand k =
     (case generateRandomString handleSize (rand k) of
        Panic \<Rightarrow> Some Panic
      | Return (Inl err) \<Rightarrow> Some (Return (Inl err))
      | Return (Inr newHandle) \<Rightarrow>
          (case HasHandleGlobal db newHandle of
             Panic \<Rightarrow> Some Panic
           | Return taken \<Rightarrow>
               if \<not> taken then Some (Return (Inr newHandle))
               else unused_handle db rand (Suc k)))"

partial_function (option) unused_secret :: "store \<Rightarrow> (nat \<Rightarrow> rand_read) \<Rightarrow> nat \<Rightarrow> (error + bytes) exec option" where
  "unused_secret db rand k =
     (case generateRandomString accountSecretSize (rand k) of
        Panic \<Rightarrow> Some Panic
      | Return (Inl err) \<Rightarrow> Some (Return (Inl err))
      | Return (Inr secret) \<Rightarrow>
          (case HasAccount db secret of
             Panic \<Rightarrow> Some Panic
           | Return taken \<Rightarrow>
               if \<not> taken then Some (Return (Inr secret))
               else unused_secret db rand (Suc k)))"

text \<open>
  The methods of the server return a string and an error, or an error alone, and
  leave the server in a new state. \<open>now\<close> is the clock as in persistence.go.
\<close>

type_synonym reply = "string \<times> error option"

definition Server_NewHandle :: "Server \<Rightarrow> bytes \<Rightarrow> (nat \<Rightarrow> rand_read) \<Rightarrow> string + bytes \<Rightarrow> (reply \<times> Server) exec option" where
  "Server_NewHandle s accountSecret rand now =
     (case GetAccountTarget (persistence s) accountSecret of
        Panic \<Rightarrow> Some Panic
      | Return (Inl err) \<Rightarrow> Some (Return (('''', Some err), s))
      | Return (Inr target) \<Rightarrow>
          (case unused_handle (persistence s) rand 0 of
             None \<Rightarrow> None
           | Some Panic \<Rightarrow> Some Panic
           | Some (Return (Inl err)) \<Rightarrow> Some (Return (('''', Some err), s))
           | Some (Return (Inr newHandle)) \<Rightarrow>
               (case NewAccountHandle (persistence s) accountSecret newHandle now of
                  Panic \<Rightarrow> Some Panic
                | Return (db, Some err) \<Rightarrow> Some (Return (('''', Some err), s\<lparr>persistence := db\<rparr>))
                | Return (db, None) \<Rightarrow>
                    (case AddHandle (mailSystemWriter s) newHandle target of
                       (p, Inl err) \<Rightarrow>
                         Some (Return (('''', Some err), s\<lparr>persistence := db, mailSystemWriter := p\<rparr>))
                     | (p, Inr fullHandle) \<Rightarrow>
                         Some (Return ((fullHandle, None), s\<lparr>persistence := db, mailSystemWriter := p\<rparr>))))))"

definition Server_NewAccount :: "Server \<Rightarrow> bytes \<Rightarrow> (nat \<Rightarrow> rand_read) \<Rightarrow> string + bytes \<Rightarrow> (reply \<times> Server) exec option" where
  "Server_NewAccount s target rand now =
     (case unused_secret (persistence s) rand 0 of
        None \<Rightarrow> None
      | Some Panic \<Rightarrow> Some Panic
      | Some (Return (Inl err)) \<Rightarrow> Some (Return (('''', Some err), s))
      | Some (Return (Inr secret)) \<Rightarrow>
          (case NewAccount (persistence s) secret target now of
             Panic \<Rightarrow> Some Panic
           | Return (db, Some err) \<Rightarrow> Some (Return (('''', Some err), s\<lparr>persistence := db\<rparr>))
           | Return (db, None) \<Rightarrow> Some (Return ((secret, None), s\<lparr>persistence := db\<rparr>))))"

text \<open>\<^verbatim>\<open>DeleteHandle\<close> drops the error of \<^verbatim>\<open>RemoveHandle\<close>.\<close>

definition Server_DeleteHandle :: "Server \<Rightarrow> bytes \<Rightarrow> bytes \<Rightarrow> (error option \<times> Server) exec" where
  "Server_DeleteHandle s secret handle =
     (case HasAccount (persistence s) secret of
        Panic \<Rightarrow> Panic
      | Return exists \<Rightarrow>
          if \<not> exists then Return (Some ErrAccountNotFound, s)
          else
            (case DeleteAccountHandle (persistence s) secret handle of
               Panic \<Rightarrow> Panic
             | Return db \<Rightarrow>
                 (case RemoveHandle (mailSystemWriter s) handle of
                    (p, _) \<Rightarrow> Return (None, s\<lparr>persistence := db, mailSystemWriter := p\<rparr>))))"

text \<open>
  The loop of \<^verbatim>\<open>DeleteAccount\<close> over the handles: it stops at the first error
  of \<^verbatim>\<open>RemoveHandle\<close>.
\<close>

fun remove_handles :: "PostfixWriter \<Rightarrow> string list \<Rightarrow> PostfixWriter \<times> error option" where
  "remove_handles p [] = (p, None)"
| "remove_handles p (handle # handles) =
     (case RemoveHandle p handle of
        (p1, Some err) \<Rightarrow> (p1, Some err)
      | (p1, None) \<Rightarrow> remove_handles p1 handles)"

definition Server_DeleteAccount :: "Server \<Rightarrow> bytes \<Rightarrow> (error option \<times> Server) exec" where
  "Server_DeleteAccount s secret =
     (case HasAccount (persistence s) secret of
        Panic \<Rightarrow> Panic
      | Return exists \<Rightarrow>
          if \<not> exists then Return (Some ErrAccountNotFound, s)
          else
            (case ListAccountHandles (persistence s) secret of
               Panic \<Rightarrow> Panic
             | Return (Inl err) \<Rightarrow> Return (Some err, s)
             | Return (Inr handles) \<Rightarrow>
                 (case remove_handles (mailSystemWriter s) handles of
                    (p, Some err) \<Rightarrow> Return (Some err, s\<lparr>mailSystemWriter := p\<rparr>)
                  | (p, None) \<Rightarrow>
                      (case DeleteAccount (persistence s) secret of
                         Panic \<Rightarrow> Panic
                       | Return db \<Rightarrow> Return (None, s\<lparr>persistence := db, mailSystemWriter := p\<rparr>)))))"

definition Server_ListHandles :: "Server \<Rightarrow> bytes \<Rightarrow> (error + bytes list) exec" where
  "Server_ListHandles s secret =
     (case HasAccount (persistence s) secret of
        Panic \<Rightarrow> Panic
      | Return exists \<Rightarrow>
          if \<not> exists then Return (Inl ErrAccountNotFound)
          else ListAccountHandles (persistence s) secret)"

text \<open>
  One round of the loop of \<^verbatim>\<open>handleCommands\<close>: the command taken from the
  channel is carried out and answered, or it ends the loop.
\<close>

datatype handled = Terminated | Answered string "error option" Server

definition answer :: "(reply \<times> Server) exec option \<Rightarrow> handled exec option" where
  "answer r =
     (case r of
        None \<Rightarrow> None
      | Some Panic \<Rightarrow> Some Panic
      | Some (Return ((res, err), s)) \<Rightarrow> Some (Return (Answered res err s)))"

definition answer_success :: "(error option \<times> Server) exec \<Rightarrow> handled exec option" where
  "answer_success r =
     (case r of
        Panic \<Rightarrow> Some Panic
      | Return (err, s) \<Rightarrow>
          Some (Return (Answered (if err = None then ''success'' else '''') err s)))"

definition handleCommand :: "Server \<Rightarrow> (nat \<Rightarrow> rand_read) \<Rightarrow> string + bytes \<Rightarrow> command \<Rightarrow> handled exec option" where
  "handleCommand s rand now cmd =
     (case cmd of
        terminateCommand \<Rightarrow> Some (Return Terminated)
      | newHandleCommand source accountSecret \<Rightarrow>
          answer (Server_NewHandle s accountSecret rand now)
      | newAccountCommand source target \<Rightarrow>
          if source = ''websocket'' then Some (Return (Answered '''' (Some ErrInvalidPermission) s))
          else answer (Server_NewAccount s target rand now)
      | deleteHandleCommand source handle secret \<Rightarrow>
          if source = ''websocket'' then Some (Return (Answered '''' (Some ErrInvalidPermission) s))
          else answer_success (Server_DeleteHandle s secret handle)
      | deleteAccountCommand source secret \<Rightarrow>
          if source = ''websocket'' then Some (Return (Answered '''' (Some ErrInvalidPermission) s))
          else answer_success (Server_DeleteAccount s secret))"

text \<open>
  \<^verbatim>\<open>strings.Fields\<close> splits a string around runs of white space, as
  \<^verbatim>\<open>unicode.IsSpace\<close> defines it. \<open>space_width\<close> is the number of bytes of the
  white-space character a string starts with, 0 when it starts with none: the six
  of ASCII, and U+0085, U+00A0, U+1680, U+2000 to U+200A, U+2028, U+2029, U+202F,
  U+205F and U+3000 in UTF-8.
\<close>

definition space_width :: "string \<Rightarrow> nat" where
  "space_width s =
     (if s = [] then 0
      else if hd s \<in> set [CHR 0x09, CHR 0x0A, CHR 0x0B, CHR 0x0C, CHR 0x0D, CHR 0x20] then 1
      else if take 2 s \<in> set [[CHR 0xC2, CHR 0x85], [CHR 0xC2, CHR 0xA0]] then 2
      else if take 3 s = [CHR 0xE1, CHR 0x9A, CHR 0x80] then 3
      else if take 2 s = [CHR 0xE2, CHR 0x80] \<and> length s \<ge> 3 \<and>
              (s ! 2 \<in> set [CHR 0x80, CHR 0x81, CHR 0x82, CHR 0x83, CHR 0x84, CHR 0x85, CHR 0x86,
                             CHR 0x87, CHR 0x88, CHR 0x89, CHR 0x8A, CHR 0xA8, CHR 0xA9, CHR 0xAF]) then 3
      else if take 3 s = [CHR 0xE2, CHR 0x81, CHR 0x9F] then 3
      else if take 3 s = [CHR 0xE3, CHR 0x80, CHR 0x80] then 3
      else 0)"

function split_fields :: "string \<Rightarrow> string \<Rightarrow> string list" where
  "split_fields field s =
     (if s = [] then (if field = [] then [] else [field])
      else if space_width s = 0 then split_fields (field @ [hd s]) (tl s)
      else (if field = [] then [] else [field]) @ split_fields [] (drop (space_width s) s))"
  by pat_completeness auto
termination
  by (relation "measure (\<lambda>(field, s). length s)") auto

declare split_fields.simps [simp del]

definition Fields :: "string \<Rightarrow> string list" where
  "Fields s = split_fields [] s"

text \<open>
  \<^verbatim>\<open>SendCommand\<close> up to its last line: the command is refused with an error, or
  it is sent on the command channel, or the function reaches its last line having
  sent nothing.
\<close>

datatype submission = Refused error | Sent command | Unsent

definition submit :: "string \<Rightarrow> string \<Rightarrow> submission" where
  "submit source args =
     (let c = Fields args in
      if length c = 0 then Refused ErrEmptyCommand
      else
        let command = c ! 0; extra = drop 1 c in
        if command = ''new'' then
          (if length extra \<noteq> 2 then Refused ErrWrongCommand
           else if extra ! 0 = ''handle'' then Sent (newHandleCommand source (extra ! 1))
           else if extra ! 0 = ''account'' then Sent (newAccountCommand source (extra ! 1))
           else Refused ErrWrongCommand)
        else if command = ''delete'' then
          (if length extra < 1 then Refused ErrWrongCommand
           else if extra ! 0 = ''handle'' then
             (if length extra \<noteq> 3 then Refused ErrWrongCommand
              else Sent (deleteHandleCommand source (extra ! 1) (extra ! 2)))
           else if extra ! 0 = ''account'' then
             (if length extra \<noteq> 2 then Refused ErrWrongCommand
              else Sent (deleteAccountCommand source (extra ! 1)))
           else Unsent)
        else Refused ErrUnknownCommand)"

text \<open>
  \<^verbatim>\<open>SendCommand\<close> as its caller sees it, with the command loop running: a
  refused command returns at once; a command that was sent is carried out by the
  loop, whose answer the last line \<^verbatim>\<open>return <-resultCh, <-errorCh\<close> receives;
  and when nothing was sent, the two channels, which no one else holds, are never
  written and the last line never returns.
\<close>

definition Server_SendCommand :: "Server \<Rightarrow> (nat \<Rightarrow> rand_read) \<Rightarrow> string + bytes \<Rightarrow> string \<Rightarrow> string \<Rightarrow> (reply \<times> Server) exec option" where
  "Server_SendCommand s rand now source args =
     (case submit source args of
        Refused err \<Rightarrow> Some (Return (('''', Some err), s))
      | Unsent \<Rightarrow> None
      | Sent cmd \<Rightarrow>
          (case handleCommand s rand now cmd of
             None \<Rightarrow> None
           | Some Panic \<Rightarrow> Some Panic
           | Some (Return Terminated) \<Rightarrow> None
           | Some (Return (Answered res err s')) \<Rightarrow> Some (Return ((res, err), s'))))"

subsection \<open>Sequences of operations on the database\<close>

text \<open>
  The four operations of persistence.go that change the database, and the database
  a sequence of them leaves, each operation working on what the one before it
  left. An operation that returns an error leaves the database it found.
\<close>

datatype operation =
    OpNewAccount bytes bytes "string + bytes"
  | OpDeleteAccount bytes
  | OpNewAccountHandle bytes bytes "string + bytes"
  | OpDeleteAccountHandle bytes bytes

fun perform :: "store \<Rightarrow> operation \<Rightarrow> store exec" where
  "perform db (OpNewAccount secret target now) =
     (case NewAccount db secret target now of Panic \<Rightarrow> Panic | Return (db', _) \<Rightarrow> Return db')"
| "perform db (OpDeleteAccount secret) = DeleteAccount db secret"
| "perform db (OpNewAccountHandle secret handle now) =
     (case NewAccountHandle db secret handle now of Panic \<Rightarrow> Panic | Return (db', _) \<Rightarrow> Return db')"
| "perform db (OpDeleteAccountHandle secret handle) = DeleteAccountHandle db secret handle"

fun perform_all :: "store \<Rightarrow> operation list \<Rightarrow> store exec" where
  "perform_all db [] = Return db"
| "perform_all db (x # xs) =
     (case perform db x of Panic \<Rightarrow> Panic | Return db' \<Rightarrow> perform_all db' xs)"

subsection \<open>The states the server reaches\<close>

text \<open>
  The server starts on a new database, with any map file, and then carries out the
  commands that \<^verbatim>\<open>SendCommand\<close> is called with, one at a time, each with its own
  random bytes and clock; between two commands the map file and the \<^verbatim>\<open>postmap\<close>
  program may change in any way. A server that starts on the database an earlier
  run left is in one of these states too.
\<close>

inductive reachable :: "Server \<Rightarrow> bool" where
  opened: "reachable \<lparr>persistence = OpenIncognitoData, mailSystemWriter = p\<rparr>"
| command: "reachable s \<Longrightarrow>
     Server_SendCommand s rand now source args = Some (Return (r, s')) \<Longrightarrow> reachable s'"
| world: "reachable s \<Longrightarrow> reachable (s\<lparr>mailSystemWriter := p\<rparr>)"

text \<open>
  What every such state has: the three static buckets, and no key of the targets
  and accounts buckets that is the name of a static bucket.
\<close>

definition reserved :: "bytes list" where
  "reserved = [targetsBucketName, accountsBucketName, handlesBucketName]"

definition no_reserved_key :: "bucket \<Rightarrow> bool" where
  "no_reserved_key b = list_all (\<lambda>r. map_of b r = None) reserved"

definition well_formed :: "store \<Rightarrow> bool" where
  "well_formed db =
     (case (db targetsBucketName, db accountsBucketName, db handlesBucketName) of
        (Some tb, Some ab, Some hb) \<Rightarrow> no_reserved_key tb \<and> no_reserved_key ab
      | _ \<Rightarrow> False)"

subsection \<open>Test data\<close>

text \<open>
  The constants of \<^verbatim>\<open>persistence_test.go\<close>, a second account, an encoded time,
  and the states the properties below are tried on: the database with the account
  of the tests; the database with both accounts and a handle of the second one;
  and the latter after the first account deleted that handle.
\<close>

definition accountSecret :: bytes where
  "accountSecret = ''testsecret''"

definition accountTarget :: bytes where
  "accountTarget = ''testtarget@example.com''"

definition accountHandle1 :: bytes where
  "accountHandle1 = ''testhandle1''"

definition otherSecret :: bytes where
  "otherSecret = ''othersecret''"

definition otherTarget :: bytes where
  "otherTarget = ''other@example.com''"

definition timestamp :: bytes where
  "timestamp = ''2016-08-01T12:00:00Z''"

text \<open>
  A secret and a handle of one byte more than bolt's \<^verbatim>\<open>MaxKeySize\<close>.
\<close>

definition long_secret :: bytes where
  "long_secret = replicate 32769 (CHR ''s'')"

definition long_handle :: bytes where
  "long_handle = replicate 32769 (CHR ''h'')"

definition db_account :: store where
  "db_account =
     OpenIncognitoData(accountSecret \<mapsto> [],
       targetsBucketName \<mapsto> [(accountSecret, accountTarget)],
       accountsBucketName \<mapsto> [(accountSecret, timestamp)])"

definition db_other_handle :: store where
  "db_other_handle =
     OpenIncognitoData(accountSecret \<mapsto> [],
       otherSecret \<mapsto> [(accountHandle1, timestamp)],
       targetsBucketName \<mapsto> [(otherSecret, otherTarget), (accountSecret, accountTarget)],
       accountsBucketName \<mapsto> [(otherSecret, timestamp), (accountSecret, timestamp)],
       handlesBucketName \<mapsto> [(accountHandle1, timestamp)])"

definition db_orphan :: store where
  "db_orphan = db_other_handle(handlesBucketName \<mapsto> [])"





definition sample_bytes :: "nat \<Rightarrow> 8 word" where
  "sample_bytes i = (if i = 0 then 0x00 else if i = 1 then 0x3E else 0xFF)"

text \<open>
  A run of the server. The random source delivers bytes that are all 0, all 1 or
  all 2, which give the secrets \<open>secret_a\<close> and \<open>secret_b\<close> and the handle
  \<open>handle_c\<close>. The server starts without a map file; two accounts are created, the
  second account gets a handle, and the first account deletes that handle.
\<close>

definition zeros :: "nat \<Rightarrow> rand_read" where
  "zeros k = ReadFills (\<lambda>i. 0)"

definition ones :: "nat \<Rightarrow> rand_read" where
  "ones k = ReadFills (\<lambda>i. 1)"

definition twos :: "nat \<Rightarrow> rand_read" where
  "twos k = ReadFills (\<lambda>i. 2)"

definition secret_a :: bytes where
  "secret_a = replicate 64 (CHR ''a'')"

definition secret_b :: bytes where
  "secret_b = replicate 64 (CHR ''b'')"

definition handle_c :: bytes where
  "handle_c = replicate 18 (CHR ''c'')"

definition writer_new :: PostfixWriter where
  "writer_new =
     \<lparr>mapfile = None, domain = ''@incognito.test'', fault = (\<lambda>c. None),
      postmap = (\<lambda>f. None), postmap_runs = []\<rparr>"

definition server_new :: Server where
  "server_new = \<lparr>persistence = OpenIncognitoData, mailSystemWriter = writer_new\<rparr>"

definition db_a :: store where
  "db_a =
     OpenIncognitoData(secret_a \<mapsto> [],
       targetsBucketName \<mapsto> [(secret_a, accountTarget)],
       accountsBucketName \<mapsto> [(secret_a, timestamp)])"

definition db_ab :: store where
  "db_ab =
     db_a(secret_b \<mapsto> [],
       targetsBucketName \<mapsto> [(secret_a, accountTarget), (secret_b, otherTarget)],
       accountsBucketName \<mapsto> [(secret_a, timestamp), (secret_b, timestamp)])"

definition db_abc :: store where
  "db_abc =
     db_ab(secret_b \<mapsto> [(handle_c, timestamp)],
       handlesBucketName \<mapsto> [(handle_c, timestamp)])"

definition db_ab_orphan :: store where
  "db_ab_orphan = db_abc(secret_a \<mapsto> [], handlesBucketName \<mapsto> [])"

definition writer_c :: PostfixWriter where
  "writer_c =
     writer_new\<lparr>mapfile := Some (write_lines [handle_c @ ''@incognito.test'' @ '' '' @ otherTarget]),
       postmap_runs := [Some (write_lines [handle_c @ ''@incognito.test'' @ '' '' @ otherTarget])]\<rparr>"

definition writer_gone :: PostfixWriter where
  "writer_gone =
     writer_c\<lparr>mapfile := Some [],
       postmap_runs :=
         [Some (write_lines [handle_c @ ''@incognito.test'' @ '' '' @ otherTarget]), Some []]\<rparr>"

definition server_abc :: Server where
  "server_abc = \<lparr>persistence = db_abc, mailSystemWriter = writer_c\<rparr>"

definition server_orphan :: Server where
  "server_orphan = \<lparr>persistence = db_ab_orphan, mailSystemWriter = writer_gone\<rparr>"

section \<open>Properties\<close>

subsection \<open>Buckets and transactions\<close>

lemma map_of_insert_key:
  "map_of (insert_key k v b) k' = (if k' = k then Some v else map_of b k')"
  by (induction b) auto

lemma map_of_remove_key:
  "map_of (remove_key k b) k' = (if k' = k then None else map_of b k')"
  by (induction b) auto

lemma collect_keys_eq: "collect_keys b result = result @ map fst b"
  by (induction b arbitrary: result) auto

lemma and_then_Fail:
  "and_then x f = Fail e \<Longrightarrow> x = Fail e \<or> (\<exists>y. x = Next y \<and> f y = Fail e)"
  by (cases x) auto

lemmas bolt_defs = tx_Bucket_def tx_CreateBucket_def tx_DeleteBucket_def bucket_Get_def
  bucket_Put_def bucket_Delete_def bucket_ForEach_def db_Update_def db_View_def gob_time_def
  lookup_exists_def MaxKeySize_def MaxValueSize_def

lemmas bucket_names = targetsBucketName_def accountsBucketName_def handlesBucketName_def

lemmas test_data = accountSecret_def accountTarget_def accountHandle1_def otherSecret_def
  otherTarget_def timestamp_def

lemmas test_states = db_account_def db_other_handle_def db_orphan_def OpenIncognitoData_def

subsection \<open>Accounts\<close>

lemma db_account_made:
  "NewAccount OpenIncognitoData accountSecret accountTarget (Inr timestamp)
     = Return (db_account, None)"
  by (simp add: NewAccount_def NewAccount_tx_def bolt_defs test_states bucket_names test_data)

lemma NewAccount_fresh:
  assumes "secret \<noteq> []" "target \<noteq> []" "db secret = None"
    and "db targetsBucketName = Some tb" "db accountsBucketName = Some ab"
    and "length secret \<le> MaxKeySize" "length target \<le> MaxValueSize" "length t \<le> MaxValueSize"
  shows "NewAccount db secret target (Inr t) =
           Return (db(secret \<mapsto> [],
                      targetsBucketName \<mapsto> insert_key secret target tb,
                      accountsBucketName \<mapsto> insert_key secret t ab), None)"
proof -
  have ne: "targetsBucketName \<noteq> secret" "accountsBucketName \<noteq> secret"
    using assms(3-5) by auto
  have na: "accountsBucketName \<noteq> targetsBucketName"
    by (simp add: bucket_names)
  show ?thesis
    using assms ne na
    by (simp add: NewAccount_def NewAccount_tx_def tx_Bucket_def tx_CreateBucket_def
        bucket_Put_def db_Update_def gob_time_def)
qed

lemma NewAccount_refused:
  assumes "secret \<noteq> []" "target \<noteq> []" "db secret = None"
    and "db targetsBucketName = Some tb"
  shows "length secret > MaxKeySize \<Longrightarrow>
           NewAccount db secret target now = Return (db, Some ErrKeyTooLarge)"
    and "length secret \<le> MaxKeySize \<Longrightarrow> length target > MaxValueSize \<Longrightarrow>
           NewAccount db secret target now = Return (db, Some ErrValueTooLarge)"
proof -
  have ne: "targetsBucketName \<noteq> secret"
    using assms(3,4) by auto
  show "length secret > MaxKeySize \<Longrightarrow>
           NewAccount db secret target now = Return (db, Some ErrKeyTooLarge)"
    using assms ne
    by (simp add: NewAccount_def NewAccount_tx_def tx_Bucket_def tx_CreateBucket_def
        bucket_Put_def db_Update_def)
  show "length secret \<le> MaxKeySize \<Longrightarrow> length target > MaxValueSize \<Longrightarrow>
           NewAccount db secret target now = Return (db, Some ErrValueTooLarge)"
    using assms ne
    by (simp add: NewAccount_def NewAccount_tx_def tx_Bucket_def tx_CreateBucket_def
        bucket_Put_def db_Update_def)
qed

lemma long_key_props:
  "length long_secret = 32769" "long_secret \<noteq> []" "long_secret \<noteq> targetsBucketName"
  "long_secret \<noteq> accountsBucketName" "long_secret \<noteq> handlesBucketName"
  "length long_handle = 32769" "long_handle \<noteq> []"
  by (auto simp: long_secret_def long_handle_def bucket_names dest: arg_cong [where f = length])

text \<open>
  C6, as amended: \<^verbatim>\<open>NewAccount\<close> with an empty secret fails with \<open>ErrEmptySecret\<close>,
  and with an empty target (the secret, which is checked first, not being empty)
  fails with \<open>ErrEmptyTarget\<close>; in both cases the database it leaves is the one it
  found. With a secret and a target that are not empty and no bucket named by the
  secret, on a database that has its targets and accounts buckets: a secret longer
  than \<^verbatim>\<open>MaxKeySize\<close> is refused with bolt's \<open>ErrKeyTooLarge\<close> and a target longer
  than \<^verbatim>\<open>MaxValueSize\<close> with bolt's \<open>ErrValueTooLarge\<close>, and the database stays as
  it was; within these limits, the clock delivering the time \<open>t\<close>, the call
  succeeds, and afterwards the secret names an empty bucket, the targets bucket
  maps the secret to the target, the accounts bucket maps it to \<open>t\<close>, and
  \<^verbatim>\<open>HasAccount\<close> is true.
\<close>

theorem NewAccount_spec:
  "NewAccount db [] target now = Return (db, Some ErrEmptySecret) \<and>
   (secret \<noteq> [] \<longrightarrow> NewAccount db secret [] now = Return (db, Some ErrEmptyTarget)) \<and>
   (secret \<noteq> [] \<and> target \<noteq> [] \<and> tx_Bucket db secret = None \<and>
    tx_Bucket db targetsBucketName \<noteq> None \<and> tx_Bucket db accountsBucketName \<noteq> None \<longrightarrow>
      (length secret > MaxKeySize \<longrightarrow>
         NewAccount db secret target now = Return (db, Some ErrKeyTooLarge)) \<and>
      (length secret \<le> MaxKeySize \<and> length target > MaxValueSize \<longrightarrow>
         NewAccount db secret target now = Return (db, Some ErrValueTooLarge)) \<and>
      (length secret \<le> MaxKeySize \<and> length target \<le> MaxValueSize \<and>
       length t \<le> MaxValueSize \<longrightarrow>
         (\<exists>db'. NewAccount db secret target (Inr t) = Return (db', None) \<and>
            tx_Bucket db' secret = Some [] \<and>
            bucket_Get db' targetsBucketName secret = Next (Some target) \<and>
            bucket_Get db' accountsBucketName secret = Next (Some t) \<and>
            HasAccount db' secret = Return True)))"
proof (intro conjI impI)
  show "NewAccount db [] target now = Return (db, Some ErrEmptySecret)"
    by (simp add: NewAccount_def)
next
  assume "secret \<noteq> []"
  then show "NewAccount db secret [] now = Return (db, Some ErrEmptyTarget)"
    by (simp add: NewAccount_def)
next
  assume a: "secret \<noteq> [] \<and> target \<noteq> [] \<and> tx_Bucket db secret = None \<and>
    tx_Bucket db targetsBucketName \<noteq> None \<and> tx_Bucket db accountsBucketName \<noteq> None"
    and "length secret > MaxKeySize"
  then show "NewAccount db secret target now = Return (db, Some ErrKeyTooLarge)"
    using NewAccount_refused(1) [of secret target db] by (auto simp: tx_Bucket_def)
next
  assume a: "secret \<noteq> [] \<and> target \<noteq> [] \<and> tx_Bucket db secret = None \<and>
    tx_Bucket db targetsBucketName \<noteq> None \<and> tx_Bucket db accountsBucketName \<noteq> None"
    and "length secret \<le> MaxKeySize \<and> length target > MaxValueSize"
  then show "NewAccount db secret target now = Return (db, Some ErrValueTooLarge)"
    using NewAccount_refused(2) [of secret target db] by (auto simp: tx_Bucket_def)
next
  assume a: "secret \<noteq> [] \<and> target \<noteq> [] \<and> tx_Bucket db secret = None \<and>
    tx_Bucket db targetsBucketName \<noteq> None \<and> tx_Bucket db accountsBucketName \<noteq> None"
    and l: "length secret \<le> MaxKeySize \<and> length target \<le> MaxValueSize \<and>
      length t \<le> MaxValueSize"
  then obtain tb ab where b: "db targetsBucketName = Some tb" "db accountsBucketName = Some ab"
    by (auto simp: tx_Bucket_def)
  from a have c: "secret \<noteq> []" "target \<noteq> []" "db secret = None"
    by (simp_all add: tx_Bucket_def)
  from l have l': "length secret \<le> MaxKeySize" "length target \<le> MaxValueSize"
      "length t \<le> MaxValueSize"
    by simp_all
  have ne: "targetsBucketName \<noteq> secret" "accountsBucketName \<noteq> secret"
    using b c by auto
  let ?db' = "db(secret \<mapsto> [], targetsBucketName \<mapsto> insert_key secret target tb,
                 accountsBucketName \<mapsto> insert_key secret t ab)"
  have "NewAccount db secret target (Inr t) = Return (?db', None)"
    by (rule NewAccount_fresh [OF c b l'])
  moreover have "tx_Bucket ?db' secret = Some []"
    using ne by (simp add: tx_Bucket_def)
  moreover have "bucket_Get ?db' targetsBucketName secret = Next (Some target)"
    by (simp add: bucket_Get_def bucket_names map_of_insert_key)
  moreover have "bucket_Get ?db' accountsBucketName secret = Next (Some t)"
    by (simp add: bucket_Get_def map_of_insert_key)
  moreover have "HasAccount ?db' secret = Return True"
    using c by (simp add: HasAccount_def bolt_defs map_of_insert_key)
  ultimately show "\<exists>db'. NewAccount db secret target (Inr t) = Return (db', None) \<and>
         tx_Bucket db' secret = Some [] \<and>
         bucket_Get db' targetsBucketName secret = Next (Some target) \<and>
         bucket_Get db' accountsBucketName secret = Next (Some t) \<and>
         HasAccount db' secret = Return True"
    by blast
qed

theorem NewAccount_spec_witness:
  "NewAccount OpenIncognitoData [] accountTarget (Inr timestamp)
     = Return (OpenIncognitoData, Some ErrEmptySecret) \<and>
   NewAccount OpenIncognitoData accountSecret [] (Inr timestamp)
     = Return (OpenIncognitoData, Some ErrEmptyTarget) \<and>
   NewAccount OpenIncognitoData long_secret accountTarget (Inr timestamp)
     = Return (OpenIncognitoData, Some ErrKeyTooLarge) \<and>
   (\<exists>db'. NewAccount OpenIncognitoData accountSecret accountTarget (Inr timestamp)
            = Return (db', None) \<and>
         tx_Bucket db' accountSecret = Some [] \<and>
         bucket_Get db' targetsBucketName accountSecret = Next (Some accountTarget) \<and>
         bucket_Get db' accountsBucketName accountSecret = Next (Some timestamp) \<and>
         HasAccount db' accountSecret = Return True)"
proof -
  have "long_secret \<noteq> [] \<and> accountTarget \<noteq> [] \<and>
      tx_Bucket OpenIncognitoData long_secret = None \<and>
      tx_Bucket OpenIncognitoData targetsBucketName \<noteq> None \<and>
      tx_Bucket OpenIncognitoData accountsBucketName \<noteq> None \<and>
      length long_secret > MaxKeySize"
    using long_key_props
    by (simp add: OpenIncognitoData_def tx_Bucket_def accountTarget_def MaxKeySize_def)
  then show ?thesis
    using
      NewAccount_spec [of OpenIncognitoData accountTarget "Inr timestamp" accountSecret timestamp]
      NewAccount_spec [of OpenIncognitoData accountTarget "Inr timestamp" long_secret timestamp]
    by (simp add: OpenIncognitoData_def tx_Bucket_def bucket_names test_data MaxKeySize_def
        MaxValueSize_def)
qed

text \<open>
  C6, as the claim states it, fails for a long secret: on a new database, for a
  secret of 32769 bytes that names no bucket and the target of the tests,
  \<^verbatim>\<open>NewAccount\<close> returns bolt's \<open>ErrKeyTooLarge\<close> and leaves the database as it
  was, without a bucket of that name, and \<^verbatim>\<open>HasAccount\<close> is false afterwards.
\<close>

theorem NewAccount_long_secret:
  "long_secret \<noteq> [] \<and> accountTarget \<noteq> [] \<and>
   length long_secret = 32769 \<and>
   tx_Bucket OpenIncognitoData long_secret = None \<and>
   NewAccount OpenIncognitoData long_secret accountTarget (Inr timestamp)
     = Return (OpenIncognitoData, Some ErrKeyTooLarge) \<and>
   HasAccount OpenIncognitoData long_secret = Return False"
proof -
  have "NewAccount OpenIncognitoData long_secret accountTarget (Inr timestamp)
     = Return (OpenIncognitoData, Some ErrKeyTooLarge)"
    using long_key_props
      NewAccount_refused(1) [of long_secret accountTarget OpenIncognitoData "[]" "Inr timestamp"]
    by (simp add: OpenIncognitoData_def accountTarget_def MaxKeySize_def)
  then show ?thesis
    using long_key_props
    by (simp add: OpenIncognitoData_def tx_Bucket_def accountTarget_def HasAccount_def
        db_View_def lookup_exists_def bucket_Get_def)
qed

text \<open>
  C7: in a database where the secret names a bucket and \<^verbatim>\<open>GetAccountTarget\<close>
  returns the target \<open>T\<close> for it, \<^verbatim>\<open>NewAccount\<close> with the same secret and any
  target that is not empty fails with \<open>ErrAccountExists\<close> and leaves the database
  as it was, so that \<^verbatim>\<open>GetAccountTarget\<close> still returns \<open>T\<close>.
\<close>

theorem NewAccount_duplicate:
  "tx_Bucket db secret \<noteq> None \<and> GetAccountTarget db secret = Return (Inr T) \<and> target \<noteq> [] \<longrightarrow>
     (\<exists>db'. NewAccount db secret target now = Return (db', Some ErrAccountExists) \<and> db' = db \<and>
        GetAccountTarget db' secret = Return (Inr T))"
proof
  assume a: "tx_Bucket db secret \<noteq> None \<and> GetAccountTarget db secret = Return (Inr T) \<and> target \<noteq> []"
  then have "secret \<noteq> []"
    by (auto simp: GetAccountTarget_def)
  with a have "NewAccount db secret target now = Return (db, Some ErrAccountExists)"
    by (simp add: NewAccount_def NewAccount_tx_def db_Update_def)
  with a show "\<exists>db'. NewAccount db secret target now = Return (db', Some ErrAccountExists) \<and>
      db' = db \<and> GetAccountTarget db' secret = Return (Inr T)"
    by simp
qed

theorem NewAccount_duplicate_witness:
  "tx_Bucket db_account accountSecret \<noteq> None \<and>
   GetAccountTarget db_account accountSecret = Return (Inr accountTarget) \<and>
   NewAccount db_account accountSecret otherTarget (Inr timestamp)
     = Return (db_account, Some ErrAccountExists)"
  using NewAccount_duplicate [of db_account accountSecret accountTarget otherTarget
      "Inr timestamp"]
  by (simp add: test_states GetAccountTarget_def bolt_defs bucket_names test_data)

lemma ListAccountHandles_no_bucket:
  "secret \<noteq> [] \<Longrightarrow> db secret = None \<Longrightarrow> ListAccountHandles db secret = Panic"
  by (simp add: ListAccountHandles_def bolt_defs)

lemma DeleteAccount_no_bucket:
  "secret \<noteq> [] \<Longrightarrow> db secret = None \<Longrightarrow> DeleteAccount db secret = Panic"
  by (simp add: DeleteAccount_def ListAccountHandles_no_bucket)

text \<open>
  C3: on a new database, where \<^verbatim>\<open>HasAccount\<close> is false for the secret of the tests
  and no bucket has its name, \<^verbatim>\<open>DeleteAccount\<close> does not return: it panics, in
  \<^verbatim>\<open>ListAccountHandles\<close>, which calls \<^verbatim>\<open>ForEach\<close> on the \<open>nil\<close> bucket.
\<close>

theorem DeleteAccount_unknown_secret_panics:
  "HasAccount OpenIncognitoData accountSecret = Return False \<and>
   tx_Bucket OpenIncognitoData accountSecret = None \<and>
   ListAccountHandles OpenIncognitoData accountSecret = Panic \<and>
   DeleteAccount OpenIncognitoData accountSecret = Panic"
  by (simp add: DeleteAccount_def ListAccountHandles_def HasAccount_def OpenIncognitoData_def
      bolt_defs bucket_names test_data)

subsection \<open>Handles\<close>

lemma NewAccountHandle_fresh:
  assumes "secret \<noteq> []" "handle \<noteq> []" "db secret = Some b" "db handlesBucketName = Some hb"
    and "map_of hb handle = None" "length handle \<le> MaxKeySize" "length t \<le> MaxValueSize"
  shows "NewAccountHandle db secret handle (Inr t) =
           Return (db(secret \<mapsto> insert_key handle t b,
                      handlesBucketName \<mapsto>
                        insert_key handle t
                          (if secret = handlesBucketName then insert_key handle t b else hb)),
                   None)"
  using assms
  by (simp add: NewAccountHandle_def NewAccountHandle_tx_def tx_Bucket_def bucket_Get_def
      bucket_Put_def db_Update_def gob_time_def)

lemma DeleteAccountHandle_removes:
  assumes "secret \<noteq> []" "handle \<noteq> []" "db secret = Some b" "db handlesBucketName = Some hb"
  shows "DeleteAccountHandle db secret handle =
           Return (db(secret \<mapsto> remove_key handle b,
                      handlesBucketName \<mapsto>
                        remove_key handle
                          (if secret = handlesBucketName then remove_key handle b else hb)))"
  using assms by (simp add: DeleteAccountHandle_def DeleteAccountHandle_tx_def bolt_defs)

text \<open>
  C2, as amended: \<^verbatim>\<open>NewAccountHandle\<close> fails with \<open>ErrEmptySecret\<close> when the
  secret is empty; otherwise with \<open>ErrAccountNotFound\<close> when no bucket has the
  secret's name; otherwise with \<open>ErrHandleExists\<close> when the handles bucket holds the
  handle, whichever account it belongs to; otherwise, the clock delivering the
  time \<open>t\<close>, with bolt's \<open>ErrKeyRequired\<close> when the handle is empty and with bolt's
  \<open>ErrKeyTooLarge\<close> when the handle is longer than \<^verbatim>\<open>MaxKeySize\<close>; a failed call
  leaves the database as it found it. In every other case it succeeds, and
  afterwards the account's bucket and the handles bucket both map the handle to
  \<open>t\<close>.
\<close>

theorem NewAccountHandle_spec:
  "NewAccountHandle db [] handle now = Return (db, Some ErrEmptySecret) \<and>
   (secret \<noteq> [] \<and> tx_Bucket db secret = None \<longrightarrow>
      NewAccountHandle db secret handle now = Return (db, Some ErrAccountNotFound)) \<and>
   (secret \<noteq> [] \<and> tx_Bucket db secret \<noteq> None \<and>
    bucket_Get db handlesBucketName handle = Next (Some t0) \<longrightarrow>
      NewAccountHandle db secret handle now = Return (db, Some ErrHandleExists)) \<and>
   (secret \<noteq> [] \<and> tx_Bucket db secret \<noteq> None \<and>
    bucket_Get db handlesBucketName handle = Next None \<and> handle = [] \<longrightarrow>
      NewAccountHandle db secret handle (Inr t) = Return (db, Some ErrKeyRequired)) \<and>
   (secret \<noteq> [] \<and> tx_Bucket db secret \<noteq> None \<and>
    bucket_Get db handlesBucketName handle = Next None \<and> length handle > MaxKeySize \<longrightarrow>
      NewAccountHandle db secret handle (Inr t) = Return (db, Some ErrKeyTooLarge)) \<and>
   (secret \<noteq> [] \<and> tx_Bucket db secret \<noteq> None \<and>
    bucket_Get db handlesBucketName handle = Next None \<and> handle \<noteq> [] \<and>
    length handle \<le> MaxKeySize \<and> length t \<le> MaxValueSize \<longrightarrow>
      (\<exists>db'. NewAccountHandle db secret handle (Inr t) = Return (db', None) \<and>
         bucket_Get db' secret handle = Next (Some t) \<and>
         bucket_Get db' handlesBucketName handle = Next (Some t)))"
proof (intro conjI impI)
  show "NewAccountHandle db [] handle now = Return (db, Some ErrEmptySecret)"
    by (simp add: NewAccountHandle_def)
next
  assume "secret \<noteq> [] \<and> tx_Bucket db secret = None"
  then show "NewAccountHandle db secret handle now = Return (db, Some ErrAccountNotFound)"
    by (simp add: NewAccountHandle_def NewAccountHandle_tx_def db_Update_def)
next
  assume "secret \<noteq> [] \<and> tx_Bucket db secret \<noteq> None \<and>
    bucket_Get db handlesBucketName handle = Next (Some t0)"
  then show "NewAccountHandle db secret handle now = Return (db, Some ErrHandleExists)"
    by (simp add: NewAccountHandle_def NewAccountHandle_tx_def db_Update_def)
next
  assume "secret \<noteq> [] \<and> tx_Bucket db secret \<noteq> None \<and>
    bucket_Get db handlesBucketName handle = Next None \<and> handle = []"
  then show "NewAccountHandle db secret handle (Inr t) = Return (db, Some ErrKeyRequired)"
    by (auto simp: NewAccountHandle_def NewAccountHandle_tx_def db_Update_def gob_time_def
        bucket_Put_def tx_Bucket_def)
next
  assume "secret \<noteq> [] \<and> tx_Bucket db secret \<noteq> None \<and>
    bucket_Get db handlesBucketName handle = Next None \<and> length handle > MaxKeySize"
  then show "NewAccountHandle db secret handle (Inr t) = Return (db, Some ErrKeyTooLarge)"
    by (auto simp: NewAccountHandle_def NewAccountHandle_tx_def db_Update_def gob_time_def
        bucket_Put_def tx_Bucket_def)
next
  assume a: "secret \<noteq> [] \<and> tx_Bucket db secret \<noteq> None \<and>
    bucket_Get db handlesBucketName handle = Next None \<and> handle \<noteq> [] \<and>
    length handle \<le> MaxKeySize \<and> length t \<le> MaxValueSize"
  then obtain b hb where b: "db secret = Some b" "db handlesBucketName = Some hb"
      "map_of hb handle = None"
    by (auto simp: tx_Bucket_def bucket_Get_def split: option.splits)
  let ?db' = "db(secret \<mapsto> insert_key handle t b,
      handlesBucketName \<mapsto>
        insert_key handle t (if secret = handlesBucketName then insert_key handle t b else hb))"
  from a b have "NewAccountHandle db secret handle (Inr t) = Return (?db', None)"
    by (intro NewAccountHandle_fresh) simp_all
  moreover have "bucket_Get ?db' secret handle = Next (Some t)"
    by (simp add: bucket_Get_def map_of_insert_key)
  moreover have "bucket_Get ?db' handlesBucketName handle = Next (Some t)"
    by (simp add: bucket_Get_def map_of_insert_key)
  ultimately show "\<exists>db'. NewAccountHandle db secret handle (Inr t) = Return (db', None) \<and>
         bucket_Get db' secret handle = Next (Some t) \<and>
         bucket_Get db' handlesBucketName handle = Next (Some t)"
    by blast
qed

theorem NewAccountHandle_spec_witness:
  "NewAccountHandle db_account [] accountHandle1 (Inr timestamp)
     = Return (db_account, Some ErrEmptySecret) \<and>
   NewAccountHandle db_account otherSecret accountHandle1 (Inr timestamp)
     = Return (db_account, Some ErrAccountNotFound) \<and>
   NewAccountHandle db_other_handle accountSecret accountHandle1 (Inr timestamp)
     = Return (db_other_handle, Some ErrHandleExists) \<and>
   NewAccountHandle db_account accountSecret [] (Inr timestamp)
     = Return (db_account, Some ErrKeyRequired) \<and>
   NewAccountHandle db_account accountSecret long_handle (Inr timestamp)
     = Return (db_account, Some ErrKeyTooLarge) \<and>
   (\<exists>db'. NewAccountHandle db_account accountSecret accountHandle1 (Inr timestamp)
            = Return (db', None) \<and>
      bucket_Get db' accountSecret accountHandle1 = Next (Some timestamp) \<and>
      bucket_Get db' handlesBucketName accountHandle1 = Next (Some timestamp))"
  using
    NewAccountHandle_spec [of db_account accountHandle1 "Inr timestamp" otherSecret
      timestamp timestamp]
    NewAccountHandle_spec [of db_other_handle accountHandle1 "Inr timestamp" accountSecret
      timestamp timestamp]
    NewAccountHandle_spec [of db_account "[]" "Inr timestamp" accountSecret timestamp timestamp]
    NewAccountHandle_spec [of db_account long_handle "Inr timestamp" accountSecret
      timestamp timestamp]
    NewAccountHandle_spec [of db_account accountHandle1 "Inr timestamp" accountSecret
      timestamp timestamp]
    long_key_props
  by (simp add: test_states tx_Bucket_def bucket_Get_def bucket_names test_data MaxKeySize_def
      MaxValueSize_def)

text \<open>
  C2, as the claim states it, fails for the empty handle: in the database with the
  account of the tests the secret is not empty, its bucket exists and the handles
  bucket does not hold the empty handle, yet \<^verbatim>\<open>NewAccountHandle\<close> writes nothing
  and returns bolt's \<open>ErrKeyRequired\<close>.
\<close>

theorem NewAccountHandle_empty_handle:
  "accountSecret \<noteq> [] \<and>
   tx_Bucket db_account accountSecret = Some [] \<and>
   bucket_Get db_account handlesBucketName [] = Next None \<and>
   NewAccountHandle db_account accountSecret [] (Inr timestamp)
     = Return (db_account, Some ErrKeyRequired) \<and>
   bucket_Get db_account accountSecret [] = Next None"
  by (simp add: NewAccountHandle_def NewAccountHandle_tx_def bolt_defs test_states
      bucket_names test_data)

text \<open>
  C1: two accounts are created, the second account gets a handle, and the first
  account deletes that handle. Every call returns without an error, and in the
  database they leave the handle is still listed for the second account, which
  still exists, while \<^verbatim>\<open>HasHandleGlobal\<close> is false for it:
  \<^verbatim>\<open>DeleteAccountHandle\<close> removes a handle from the handles bucket without
  looking whether the account it was given owns it.
\<close>

theorem DeleteAccountHandle_breaks_index:
  "perform_all OpenIncognitoData
     [OpNewAccount accountSecret accountTarget (Inr timestamp),
      OpNewAccount otherSecret otherTarget (Inr timestamp),
      OpNewAccountHandle otherSecret accountHandle1 (Inr timestamp),
      OpDeleteAccountHandle accountSecret accountHandle1] = Return db_orphan \<and>
   HasAccount db_orphan otherSecret = Return True \<and>
   ListAccountHandles db_orphan otherSecret = Return (Inr [accountHandle1]) \<and>
   HasHandleGlobal db_orphan accountHandle1 = Return False"
  by (simp add: NewAccount_def NewAccount_tx_def NewAccountHandle_def NewAccountHandle_tx_def
      DeleteAccountHandle_def DeleteAccountHandle_tx_def ListAccountHandles_def HasAccount_def
      HasHandleGlobal_def bolt_defs test_states bucket_names test_data fun_eq_iff)

subsection \<open>Random strings\<close>

lemma allowedCharactersNum_eq: "allowedCharactersNum = 62"
  by (simp add: allowedCharactersNum_def allowedCharacters_def)

lemma bitsPerIndex_eq: "bitsPerIndex = 6"
proof -
  have "\<lceil>log (real 2) (real 62)\<rceil> = int 5 + 1"
    by (rule ceiling_log_nat_eq_if) simp_all
  then show ?thesis
    by (simp add: bitsPerIndex_def allowedCharactersNum_eq)
qed

lemma indexMask_eq: "indexMask = 63"
  by (simp add: indexMask_def bitsPerIndex_eq)

lemma index_in_alphabet:
  "allowedCharacters ! (unat (b AND indexMask) mod allowedCharactersNum) \<in> set allowedCharacters"
  by (rule nth_mem) (simp add: allowedCharactersNum_def allowedCharacters_def)

text \<open>
  The loop from index \<open>i\<close> on: it keeps what \<open>result\<close> holds below \<open>i\<close> and writes
  one character for each remaining byte of the buffer.
\<close>

lemma fill_result_eq:
  "i \<le> sz \<Longrightarrow> length buf = sz \<Longrightarrow> length result = sz \<Longrightarrow>
   fill_result buf result sz i =
     Return (take i result @
       map (\<lambda>b. allowedCharacters ! (unat (b AND indexMask) mod allowedCharactersNum)) (drop i buf))"
proof (induction buf result sz i rule: fill_result.induct)
  case (1 buf result sz i)
  show ?case
  proof (cases "i < sz")
    case False
    with "1.prems" show ?thesis
      by (subst fill_result.simps) simp
  next
    case True
    let ?idx = "unat ((buf ! i) AND indexMask) mod allowedCharactersNum"
    have idx: "?idx < length allowedCharacters"
      by (simp add: allowedCharactersNum_def allowedCharacters_def)
    have ih: "fill_result buf (result[i := allowedCharacters ! ?idx]) sz (i + 1) =
        Return (take (i + 1) (result[i := allowedCharacters ! ?idx]) @
          map (\<lambda>b. allowedCharacters ! (unat (b AND indexMask) mod allowedCharactersNum))
            (drop (i + 1) buf))"
      using "1.IH" [OF True _ refl idx] True "1.prems" by simp
    have "take (i + 1) (result[i := allowedCharacters ! ?idx]) =
        take i result @ [allowedCharacters ! ?idx]"
      using True "1.prems" by (simp add: take_Suc_conv_app_nth)
    moreover have "drop i buf = buf ! i # drop (i + 1) buf"
      using True "1.prems" by (simp add: Cons_nth_drop_Suc)
    ultimately show ?thesis
      using True "1.prems" idx ih by (subst fill_result.simps) (simp add: Let_def)
  qed
qed

lemma generateRandomString_fills:
  "0 \<le> sz \<Longrightarrow>
   generateRandomString sz (ReadFills f) =
     Return (Inr (map (\<lambda>i. allowedCharacters ! (unat (f i AND indexMask) mod allowedCharactersNum))
       [0..<nat sz]))"
  by (simp add: generateRandomString_def fill_result_eq comp_def)

lemma generateRandomString_err:
  "generateRandomString sz rd = Return (Inl e) \<Longrightarrow> \<exists>m. e = ErrExternal m"
  by (auto simp: generateRandomString_def split: if_splits rand_read.splits exec.splits)

text \<open>
  C8: for a size \<open>sz\<close> that is not negative, \<^verbatim>\<open>generateRandomString\<close> returns the
  error of the random source when the source fails, and fails in no other case;
  when the source fills the buffer it returns the string whose \<open>i\<close>-th character,
  for each \<open>i\<close> below \<open>sz\<close>, is the character of \<open>allowedCharacters\<close> at the index
  got from byte \<open>i\<close> of the buffer by masking it with \<open>indexMask\<close> and reducing it
  modulo the number of characters. The string has \<open>sz\<close> characters, all of them in
  \<open>allowedCharacters\<close>, which has 62 distinct characters, each a lowercase letter, an
  uppercase letter or a digit; \<open>bitsPerIndex\<close> is the least number of bits that covers
  62 values, and \<open>indexMask\<close> is the mask of that many bits.
\<close>

theorem generateRandomString_spec:
  "0 \<le> sz \<longrightarrow>
     generateRandomString sz (ReadFails msg) = Return (Inl (ErrExternal msg)) \<and>
     (\<exists>str. generateRandomString sz (ReadFills f) = Return (Inr str) \<and>
        str = map (\<lambda>i. allowedCharacters ! (unat (f i AND indexMask) mod allowedCharactersNum))
                [0..<nat sz] \<and>
        length str = nat sz \<and>
        set str \<subseteq> set allowedCharacters) \<and>
     (generateRandomString sz rd = Return (Inl e) \<longrightarrow> (\<exists>m. rd = ReadFails m \<and> e = ErrExternal m)) \<and>
     allowedCharactersNum = 62 \<and> distinct allowedCharacters \<and>
     list_all (\<lambda>c. (CHR ''a'' \<le> c \<and> c \<le> CHR ''z'') \<or> (CHR ''A'' \<le> c \<and> c \<le> CHR ''Z'') \<or>
        (CHR ''0'' \<le> c \<and> c \<le> CHR ''9'')) allowedCharacters \<and>
     2 ^ (bitsPerIndex - 1) < allowedCharactersNum \<and> allowedCharactersNum \<le> 2 ^ bitsPerIndex \<and>
     indexMask = mask bitsPerIndex"
proof
  assume sz: "0 \<le> sz"
  let ?str = "map (\<lambda>i. allowedCharacters ! (unat (f i AND indexMask) mod allowedCharactersNum))
                [0..<nat sz]"
  have a: "generateRandomString sz (ReadFails msg) = Return (Inl (ErrExternal msg))"
    using sz by (simp add: generateRandomString_def)
  have "set ?str \<subseteq> set allowedCharacters"
    by (auto simp: index_in_alphabet)
  then have b: "\<exists>str. generateRandomString sz (ReadFills f) = Return (Inr str) \<and>
        str = ?str \<and> length str = nat sz \<and> set str \<subseteq> set allowedCharacters"
    using generateRandomString_fills [OF sz, of f] by simp
  have d: "generateRandomString sz rd = Return (Inl e) \<longrightarrow>
      (\<exists>m. rd = ReadFails m \<and> e = ErrExternal m)"
  proof (cases rd)
    case (ReadFails m)
    with sz show ?thesis by (auto simp: generateRandomString_def)
  next
    case (ReadFills g)
    with generateRandomString_fills [OF sz, of g] show ?thesis by simp
  qed
  have e: "allowedCharactersNum = 62" "distinct allowedCharacters"
    "list_all (\<lambda>c. (CHR ''a'' \<le> c \<and> c \<le> CHR ''z'') \<or> (CHR ''A'' \<le> c \<and> c \<le> CHR ''Z'') \<or>
        (CHR ''0'' \<le> c \<and> c \<le> CHR ''9'')) allowedCharacters"
    by (simp_all add: allowedCharactersNum_eq allowedCharacters_def)
  have g: "2 ^ (bitsPerIndex - 1) < allowedCharactersNum" "allowedCharactersNum \<le> 2 ^ bitsPerIndex"
    by (simp_all add: bitsPerIndex_eq allowedCharactersNum_eq)
  have h: "indexMask = mask bitsPerIndex"
    by (simp add: indexMask_def mask_eq_decr_exp)
  from a b d e g h show "generateRandomString sz (ReadFails msg) = Return (Inl (ErrExternal msg)) \<and>
     (\<exists>str. generateRandomString sz (ReadFills f) = Return (Inr str) \<and>
        str = ?str \<and> length str = nat sz \<and> set str \<subseteq> set allowedCharacters) \<and>
     (generateRandomString sz rd = Return (Inl e) \<longrightarrow> (\<exists>m. rd = ReadFails m \<and> e = ErrExternal m)) \<and>
     allowedCharactersNum = 62 \<and> distinct allowedCharacters \<and>
     list_all (\<lambda>c. (CHR ''a'' \<le> c \<and> c \<le> CHR ''z'') \<or> (CHR ''A'' \<le> c \<and> c \<le> CHR ''Z'') \<or>
        (CHR ''0'' \<le> c \<and> c \<le> CHR ''9'')) allowedCharacters \<and>
     2 ^ (bitsPerIndex - 1) < allowedCharactersNum \<and> allowedCharactersNum \<le> 2 ^ bitsPerIndex \<and>
     indexMask = mask bitsPerIndex"
    by blast
qed

theorem generateRandomString_spec_witness:
  "(0::int) \<le> 3 \<and>
   generateRandomString 3 (ReadFails ''no entropy'') = Return (Inl (ErrExternal ''no entropy'')) \<and>
   generateRandomString 3 (ReadFills sample_bytes) = Return (Inr ''aab'')"
  using generateRandomString_spec [of 3 "''no entropy''" sample_bytes "ReadFills sample_bytes"
      ErrEmptySecret]
  by (auto simp: sample_bytes_def indexMask_eq allowedCharactersNum_eq allowedCharacters_def
      upt_rec)

subsection \<open>The map file\<close>


lemma split_lines_first:
  "data \<noteq> [] \<Longrightarrow>
     split_lines line data =
       (line @ first_line data) # split_lines [] (drop (length (first_line data) + 1) data)"
proof (induction data arbitrary: line)
  case Nil
  then show ?case by simp
next
  case (Cons c cs)
  show ?case
  proof (cases "c = CHR 0x0A")
    case True
    then show ?thesis by (simp add: first_line_def)
  next
    case False
    show ?thesis
    proof (cases "cs = []")
      case True
      with False show ?thesis by (simp add: first_line_def)
    next
      case ne: False
      from Cons.IH [OF ne, of "line @ [c]"] False show ?thesis
        by (simp add: first_line_def)
    qed
  qed
qed

lemma scan_tokens_eq:
  "list_all (\<lambda>line. length line < MaxScanTokenSize) (file_lines f) \<Longrightarrow>
     scan_tokens f = map dropCR (file_lines f)"
proof (induction f rule: scan_tokens.induct)
  case (1 data)
  show ?case
  proof (cases "data = []")
    case True
    then show ?thesis
      by (subst scan_tokens.simps) (simp add: file_lines_def)
  next
    case False
    then have fl: "file_lines data =
        first_line data # file_lines (drop (length (first_line data) + 1) data)"
      using split_lines_first [of data "[]"] by (simp add: file_lines_def)
    with "1.prems" have short: "\<not> MaxScanTokenSize \<le> length (first_line data)"
      and rest: "list_all (\<lambda>line. length line < MaxScanTokenSize)
                   (file_lines (drop (length (first_line data) + 1) data))"
      by simp_all
    from "1.IH" [OF False short rest] False short fl show ?thesis
      by (subst scan_tokens.simps) simp
  qed
qed



lemma split_lines_append:
  "CHR 0x0A \<notin> set xs \<Longrightarrow>
     split_lines line (xs @ CHR 0x0A # ys) = (line @ xs) # split_lines [] ys"
  by (induction xs arbitrary: line) auto

lemma file_lines_write_lines:
  "\<forall>l \<in> set ls. CHR 0x0A \<notin> set l \<Longrightarrow> file_lines (write_lines ls) = ls"
proof (induction ls)
  case Nil
  show ?case by (simp add: file_lines_def write_lines_def)
next
  case (Cons l ls)
  then show ?case
    using split_lines_append [of l "[]" "write_lines ls"]
    by (simp add: file_lines_def write_lines_def)
qed



lemma scan_tokens_write_lines:
  assumes "\<forall>l \<in> set ls. CHR 0x0A \<notin> set l \<and> length l < MaxScanTokenSize \<and> dropCR l = l"
  shows "scan_tokens (write_lines ls) = ls"
proof -
  from assms have fl: "file_lines (write_lines ls) = ls"
    by (simp add: file_lines_write_lines)
  with assms have "list_all (\<lambda>line. length line < MaxScanTokenSize) (file_lines (write_lines ls))"
    by (simp add: list_all_iff)
  then have "scan_tokens (write_lines ls) = map dropCR ls"
    using scan_tokens_eq fl by fastforce
  with assms show ?thesis
    by (simp add: map_idI)
qed

text \<open>
  \<^verbatim>\<open>AddHandle\<close> appends bytes: after a last line that no newline ends, the new
  entry continues that line.
\<close>

lemma AddHandle_unterminated:
  "AddHandle (writer_new\<lparr>mapfile := Some ''a@incognito.test x@example.com''\<rparr>) ''b'' ''y@example.com''
     = (writer_new\<lparr>mapfile := Some ''a@incognito.test x@example.comb@incognito.test y@example.com\<newline>'',
          postmap_runs :=
            [Some ''a@incognito.test x@example.comb@incognito.test y@example.com\<newline>'']\<rparr>,
        Inr ''b@incognito.test'')"
  by (simp add: AddHandle_def invokePostmap_def writer_new_def)

text \<open>
  When \<^verbatim>\<open>os.Rename\<close> fails the map file stays as it was, whatever the loop
  wrote, and \<^verbatim>\<open>postmap\<close> still runs.
\<close>

lemma RemoveHandle_rename_fails:
  "mapfile p = Some f \<Longrightarrow> fault p OpenFile = None \<Longrightarrow> fault p TempFile = None \<Longrightarrow>
     fault p Rename = Some msg \<Longrightarrow> RemoveHandle p h = invokePostmap p"
  by (simp add: RemoveHandle_def)




subsection \<open>Commands\<close>

text \<open>
  C5: a new-account, a delete-account and a delete-handle command whose source is
  \<^verbatim>\<open>"websocket"\<close> are answered with the empty string and
  \<open>ErrInvalidPermission\<close>, and the server they leave is the server they found: the
  database, the map file and the list of \<^verbatim>\<open>postmap\<close> runs are untouched. A
  new-handle command is answered with what \<^verbatim>\<open>NewHandle\<close> returns, whatever its
  source.
\<close>

theorem websocket_permissions:
  "handleCommand s rand now (newAccountCommand ''websocket'' target)
     = Some (Return (Answered '''' (Some ErrInvalidPermission) s)) \<and>
   handleCommand s rand now (deleteAccountCommand ''websocket'' secret)
     = Some (Return (Answered '''' (Some ErrInvalidPermission) s)) \<and>
   handleCommand s rand now (deleteHandleCommand ''websocket'' handle secret)
     = Some (Return (Answered '''' (Some ErrInvalidPermission) s)) \<and>
   handleCommand s rand now (newHandleCommand ''websocket'' secret)
     = answer (Server_NewHandle s secret rand now) \<and>
   handleCommand s rand now (newHandleCommand source secret)
     = answer (Server_NewHandle s secret rand now)"
  by (simp add: handleCommand_def)

lemma Fields_delete_foo: "Fields ''delete foo'' = [''delete'', ''foo'']"
  by (simp add: Fields_def split_fields.simps space_width_def)

text \<open>
  The commands after which \<^verbatim>\<open>SendCommand\<close> has sent nothing and yet goes on to
  wait: the delete commands whose second word is neither \<^verbatim>\<open>handle\<close> nor
  \<^verbatim>\<open>account\<close>. Every other command that is not sent is refused with one of
  three errors.
\<close>

lemma submit_Unsent_iff:
  "submit source args = Unsent \<longleftrightarrow>
     (\<exists>x xs. Fields args = ''delete'' # x # xs \<and> x \<noteq> ''handle'' \<and> x \<noteq> ''account'')"
proof (cases "Fields args")
  case Nil
  then show ?thesis by (simp add: submit_def)
next
  case (Cons c extra)
  then show ?thesis
    by (cases extra) (auto simp: submit_def Let_def)
qed

lemma submit_Refused:
  "submit source args = Refused e \<Longrightarrow>
     e = ErrEmptyCommand \<or> e = ErrUnknownCommand \<or> e = ErrWrongCommand"
  by (auto simp: submit_def Let_def split: if_splits)

text \<open>
  C4: the command \<^verbatim>\<open>delete foo\<close>, whose second word is neither \<^verbatim>\<open>handle\<close> nor
  \<^verbatim>\<open>account\<close>, is not refused with an error: \<^verbatim>\<open>SendCommand\<close> sends nothing
  and then waits for an answer that cannot come, so it never returns.
\<close>

theorem SendCommand_delete_unknown_object:
  "Fields ''delete foo'' = [''delete'', ''foo''] \<and>
   submit source ''delete foo'' = Unsent \<and>
   Server_SendCommand s rand now source ''delete foo'' = None"
  by (simp add: Server_SendCommand_def submit_def Fields_delete_foo)

subsection \<open>No handle-not-found error\<close>

lemma unused_handle_err:
  "unused_handle db rand k = Some y \<Longrightarrow> y \<noteq> Return (Inl ErrHandleNotFound)"
  by (rule unused_handle.raw_induct
        [where P = "\<lambda>db rand k y. y \<noteq> Return (Inl ErrHandleNotFound)"])
     (auto split: exec.splits sum.splits if_splits dest: generateRandomString_err)

lemma unused_secret_err:
  "unused_secret db rand k = Some y \<Longrightarrow> y \<noteq> Return (Inl ErrHandleNotFound)"
  by (rule unused_secret.raw_induct
        [where P = "\<lambda>db rand k y. y \<noteq> Return (Inl ErrHandleNotFound)"])
     (auto split: exec.splits sum.splits if_splits dest: generateRandomString_err)

lemma unused_handle_no_HandleNotFound:
  "unused_handle db rand k \<noteq> Some (Return (Inl ErrHandleNotFound))"
  using unused_handle_err by blast

lemma unused_secret_no_HandleNotFound:
  "unused_secret db rand k \<noteq> Some (Return (Inl ErrHandleNotFound))"
  using unused_secret_err by blast

lemma NewAccount_err:
  "NewAccount db secret target now \<noteq> Return (db', Some ErrHandleNotFound)"
  by (auto simp: NewAccount_def NewAccount_tx_def bolt_defs
      split: if_splits step.splits option.splits sum.splits dest!: and_then_Fail)

lemma NewAccountHandle_err:
  "NewAccountHandle db secret handle now \<noteq> Return (db', Some ErrHandleNotFound)"
  by (auto simp: NewAccountHandle_def NewAccountHandle_tx_def bolt_defs
      split: if_splits step.splits option.splits sum.splits dest!: and_then_Fail)

lemma GetAccountTarget_err:
  "GetAccountTarget db secret \<noteq> Return (Inl ErrHandleNotFound)"
  by (auto simp: GetAccountTarget_def bolt_defs
      split: if_splits step.splits option.splits sum.splits dest!: and_then_Fail)

lemma ListAccountHandles_err:
  "ListAccountHandles db secret \<noteq> Return (Inl ErrHandleNotFound)"
  by (auto simp: ListAccountHandles_def bolt_defs
      split: if_splits step.splits option.splits sum.splits)

lemma RemoveHandle_err: "RemoveHandle p h \<noteq> (p', Some ErrHandleNotFound)"
  by (auto simp: RemoveHandle_def invokePostmap_def Let_def split: option.splits)

lemma AddHandle_err: "AddHandle p h t \<noteq> (p', Inl ErrHandleNotFound)"
  by (auto simp: AddHandle_def invokePostmap_def Let_def split: option.splits prod.splits)

lemma remove_handles_err: "remove_handles p hs \<noteq> (p', Some ErrHandleNotFound)"
proof (induction hs arbitrary: p)
  case Nil
  show ?case by simp
next
  case (Cons h hs)
  show ?case
    using RemoveHandle_err [of p h] Cons.IH
    by (auto split: prod.splits option.splits)
qed

lemma Server_NewHandle_err:
  "Server_NewHandle s secret rand now \<noteq> Some (Return ((res, Some ErrHandleNotFound), s'))"
  using GetAccountTarget_err [of "persistence s" secret]
    unused_handle_no_HandleNotFound [of "persistence s" rand 0]
    NewAccountHandle_err AddHandle_err
  by (auto simp: Server_NewHandle_def split: exec.splits sum.splits option.splits prod.splits)

lemma Server_NewAccount_err:
  "Server_NewAccount s target rand now \<noteq> Some (Return ((res, Some ErrHandleNotFound), s'))"
  using unused_secret_no_HandleNotFound [of "persistence s" rand 0] NewAccount_err
  by (auto simp: Server_NewAccount_def split: exec.splits sum.splits option.splits prod.splits)

lemma Server_DeleteHandle_err:
  "Server_DeleteHandle s secret handle \<noteq> Return (Some ErrHandleNotFound, s')"
  by (auto simp: Server_DeleteHandle_def split: exec.splits if_splits prod.splits)

lemma Server_DeleteAccount_err:
  "Server_DeleteAccount s secret \<noteq> Return (Some ErrHandleNotFound, s')"
  using ListAccountHandles_err [of "persistence s" secret] remove_handles_err
  by (auto simp: Server_DeleteAccount_def
      split: exec.splits if_splits prod.splits sum.splits option.splits)

lemma Server_ListHandles_err:
  "Server_ListHandles s secret \<noteq> Return (Inl ErrHandleNotFound)"
  using ListAccountHandles_err [of "persistence s" secret]
  by (auto simp: Server_ListHandles_def split: exec.splits if_splits)

lemma handleCommand_err:
  "handleCommand s rand now cmd \<noteq> Some (Return (Answered res (Some ErrHandleNotFound) s'))"
  using Server_NewHandle_err Server_NewAccount_err Server_DeleteHandle_err Server_DeleteAccount_err
  by (auto simp: handleCommand_def answer_def answer_success_def
      split: command.splits if_splits option.splits exec.splits prod.splits)

lemma submit_err: "submit source args \<noteq> Refused ErrHandleNotFound"
  by (auto simp: submit_def Let_def split: if_splits)

lemma Server_SendCommand_err:
  "Server_SendCommand s rand now source args \<noteq> Some (Return ((res, Some ErrHandleNotFound), s'))"
  using handleCommand_err submit_err
  by (auto simp: Server_SendCommand_def
      split: submission.splits option.splits exec.splits handled.splits)

subsection \<open>What every state of the server has\<close>

lemma well_formed_iff:
  "well_formed db \<longleftrightarrow>
     (\<exists>tb ab hb. db targetsBucketName = Some tb \<and> db accountsBucketName = Some ab \<and>
        db handlesBucketName = Some hb \<and> no_reserved_key tb \<and> no_reserved_key ab)"
  by (auto simp: well_formed_def split: option.splits)

lemma well_formed_open: "well_formed OpenIncognitoData"
  by (simp add: well_formed_def OpenIncognitoData_def bucket_names no_reserved_key_def reserved_def)

lemma no_reserved_insert:
  "no_reserved_key b \<Longrightarrow> k \<notin> set reserved \<Longrightarrow> no_reserved_key (insert_key k v b)"
  by (auto simp: no_reserved_key_def reserved_def map_of_insert_key)

lemma no_reserved_remove:
  "no_reserved_key b \<Longrightarrow> no_reserved_key (remove_key k b)"
  by (auto simp: no_reserved_key_def reserved_def map_of_remove_key)

lemma reserved_distinct:
  "targetsBucketName \<noteq> accountsBucketName" "targetsBucketName \<noteq> handlesBucketName"
  "accountsBucketName \<noteq> handlesBucketName"
  by (simp_all add: bucket_names)

lemma NewAccount_well_formed:
  assumes "well_formed db" "NewAccount db secret target now = Return (db', e)"
  shows "well_formed db'"
proof (cases "e")
  case (Some err)
  with assms show ?thesis
    by (auto simp: NewAccount_def db_Update_def split: if_splits step.splits)
next
  case None
  from assms(1) obtain tb ab hb where b: "db targetsBucketName = Some tb"
      "db accountsBucketName = Some ab" "db handlesBucketName = Some hb"
      "no_reserved_key tb" "no_reserved_key ab"
    by (auto simp: well_formed_iff)
  from assms(2) None have s: "secret \<noteq> []" "target \<noteq> []" "db secret = None"
    by (auto simp: NewAccount_def NewAccount_tx_def db_Update_def tx_Bucket_def
        split: if_splits step.splits)
  then have nr: "secret \<notin> set reserved"
    using b by (auto simp: reserved_def)
  from assms(2) None obtain t where t: "now = Inr t" "length secret \<le> MaxKeySize"
      "length target \<le> MaxValueSize" "length t \<le> MaxValueSize"
    using s b nr reserved_distinct
    by (cases now) (auto simp: NewAccount_def NewAccount_tx_def tx_Bucket_def tx_CreateBucket_def
        bucket_Put_def db_Update_def gob_time_def reserved_def split: if_splits)
  have "db' = db(secret \<mapsto> [], targetsBucketName \<mapsto> insert_key secret target tb,
                      accountsBucketName \<mapsto> insert_key secret t ab)"
    using NewAccount_fresh [OF s b(1,2) t(2,3,4)] assms(2) t(1) by simp
  then show ?thesis
    using b nr reserved_distinct
    by (auto simp: well_formed_iff no_reserved_insert reserved_def)
qed

lemma DeleteAccountHandle_well_formed:
  assumes "well_formed db" "DeleteAccountHandle db secret handle = Return db'"
  shows "well_formed db'"
proof -
  from assms(1) obtain tb ab hb where b: "db targetsBucketName = Some tb"
      "db accountsBucketName = Some ab" "db handlesBucketName = Some hb"
      "no_reserved_key tb" "no_reserved_key ab"
    by (auto simp: well_formed_iff)
  show ?thesis
  proof (cases "secret = [] \<or> handle = [] \<or> db secret = None")
    case True
    with assms show ?thesis
      by (auto simp: DeleteAccountHandle_def DeleteAccountHandle_tx_def db_Update_def tx_Bucket_def
          split: if_splits)
  next
    case False
    then obtain sb where sb: "db secret = Some sb" "secret \<noteq> []" "handle \<noteq> []"
      by auto
    from DeleteAccountHandle_removes [OF sb(2,3,1) b(3)] assms(2)
    have "db' = db(secret \<mapsto> remove_key handle sb,
                      handlesBucketName \<mapsto>
                        remove_key handle
                          (if secret = handlesBucketName then remove_key handle sb else hb))"
      by simp
    then show ?thesis
      using b sb reserved_distinct
      by (auto simp: well_formed_iff no_reserved_remove)
  qed
qed

lemma delete_handles_well_formed:
  "well_formed db \<Longrightarrow> delete_handles db secret hs = Return db' \<Longrightarrow> well_formed db'"
proof (induction hs arbitrary: db)
  case Nil
  then show ?case by simp
next
  case (Cons h hs)
  then show ?case
    by (auto split: exec.splits dest: DeleteAccountHandle_well_formed)
qed

lemma DeleteAccount_well_formed:
  assumes "well_formed db" "secret \<notin> set reserved" "DeleteAccount db secret = Return db'"
  shows "well_formed db'"
proof (cases "secret = []")
  case True
  with assms show ?thesis by (simp add: DeleteAccount_def)
next
  case False
  show ?thesis
  proof (cases "ListAccountHandles db secret")
    case Panic
    with assms False show ?thesis by (simp add: DeleteAccount_def)
  next
    case (Return r)
    show ?thesis
    proof (cases r)
      case (Inl err)
      with assms False Return show ?thesis by (simp add: DeleteAccount_def)
    next
      case (Inr hs)
      with assms(3) False Return obtain db1 e where
        d1: "delete_handles db secret hs = Return db1" and
        d2: "db_Update db1 (DeleteAccount_tx secret) = Return (db', e)"
        by (auto simp: DeleteAccount_def split: exec.splits)
      from delete_handles_well_formed [OF assms(1) d1] obtain tb ab hb where
        b: "db1 targetsBucketName = Some tb" "db1 accountsBucketName = Some ab"
           "db1 handlesBucketName = Some hb" "no_reserved_key tb" "no_reserved_key ab"
        by (auto simp: well_formed_iff)
      from d2 b assms(2) reserved_distinct show ?thesis
        by (auto simp: DeleteAccount_tx_def bolt_defs well_formed_iff reserved_def
            no_reserved_remove split: step.splits if_splits option.splits)
    qed
  qed
qed

lemma NewAccountHandle_well_formed:
  assumes "well_formed db" "secret \<noteq> targetsBucketName" "secret \<noteq> accountsBucketName"
    and "NewAccountHandle db secret handle now = Return (db', e)"
  shows "well_formed db'"
proof (cases e)
  case (Some err)
  with assms show ?thesis
    by (auto simp: NewAccountHandle_def db_Update_def split: if_splits step.splits)
next
  case None
  from assms(1) obtain tb ab hb where b: "db targetsBucketName = Some tb"
      "db accountsBucketName = Some ab" "db handlesBucketName = Some hb"
      "no_reserved_key tb" "no_reserved_key ab"
    by (auto simp: well_formed_iff)
  from assms(4) None b assms(2,3) reserved_distinct show ?thesis
    by (auto simp: NewAccountHandle_def NewAccountHandle_tx_def bolt_defs well_formed_iff
        split: if_splits step.splits option.splits sum.splits)
qed

lemma HasAccount_not_reserved:
  "well_formed db \<Longrightarrow> HasAccount db secret = Return True \<Longrightarrow> secret \<notin> set reserved"
  by (auto simp: well_formed_iff HasAccount_def bolt_defs no_reserved_key_def reserved_def
      split: if_splits option.splits)

lemma GetAccountTarget_not_reserved:
  "well_formed db \<Longrightarrow> GetAccountTarget db secret = Return (Inr t) \<Longrightarrow> secret \<notin> set reserved"
  by (auto simp: well_formed_iff GetAccountTarget_def bolt_defs no_reserved_key_def reserved_def
      split: if_splits option.splits)

lemma Server_NewHandle_well_formed:
  assumes "well_formed (persistence s)"
    and "Server_NewHandle s secret rand now = Some (Return (r, s'))"
  shows "well_formed (persistence s')"
proof (cases "GetAccountTarget (persistence s) secret")
  case Panic
  with assms show ?thesis by (simp add: Server_NewHandle_def)
next
  case (Return g)
  show ?thesis
  proof (cases g)
    case (Inl err)
    with assms Return show ?thesis by (auto simp: Server_NewHandle_def)
  next
    case (Inr target)
    with Return assms(1) have "secret \<notin> set reserved"
      using GetAccountTarget_not_reserved by blast
    then have nr: "secret \<noteq> targetsBucketName" "secret \<noteq> accountsBucketName"
      by (auto simp: reserved_def)
    from assms Return Inr show ?thesis
      using NewAccountHandle_well_formed [OF assms(1) nr]
      by (auto simp: Server_NewHandle_def
          split: option.splits exec.splits sum.splits prod.splits)
  qed
qed

lemma Server_NewAccount_well_formed:
  assumes "well_formed (persistence s)"
    and "Server_NewAccount s target rand now = Some (Return (r, s'))"
  shows "well_formed (persistence s')"
  using assms NewAccount_well_formed [OF assms(1)]
  by (auto simp: Server_NewAccount_def split: option.splits exec.splits sum.splits prod.splits)

lemma Server_DeleteHandle_well_formed:
  assumes "well_formed (persistence s)"
    and "Server_DeleteHandle s secret handle = Return (e, s')"
  shows "well_formed (persistence s')"
  using assms DeleteAccountHandle_well_formed [OF assms(1)]
  by (auto simp: Server_DeleteHandle_def split: exec.splits if_splits prod.splits)

lemma Server_DeleteAccount_well_formed:
  assumes "well_formed (persistence s)"
    and "Server_DeleteAccount s secret = Return (e, s')"
  shows "well_formed (persistence s')"
proof (cases "HasAccount (persistence s) secret = Return True")
  case False
  with assms show ?thesis
    by (auto simp: Server_DeleteAccount_def split: exec.splits if_splits)
next
  case True
  then have "secret \<notin> set reserved"
    using HasAccount_not_reserved [OF assms(1)] by blast
  with assms True show ?thesis
    using DeleteAccount_well_formed [OF assms(1)]
    by (auto simp: Server_DeleteAccount_def
        split: exec.splits if_splits prod.splits sum.splits option.splits)
qed

lemma handleCommand_well_formed:
  assumes "well_formed (persistence s)"
    and "handleCommand s rand now cmd = Some (Return (Answered res err s'))"
  shows "well_formed (persistence s')"
proof (cases cmd)
  case (newHandleCommand source secret)
  with assms show ?thesis
    using Server_NewHandle_well_formed [OF assms(1)]
    by (auto simp: handleCommand_def answer_def split: option.splits exec.splits prod.splits)
next
  case (newAccountCommand source target)
  with assms show ?thesis
    using Server_NewAccount_well_formed [OF assms(1)]
    by (auto simp: handleCommand_def answer_def
        split: option.splits exec.splits prod.splits if_splits)
next
  case (deleteHandleCommand source handle secret)
  with assms show ?thesis
    using Server_DeleteHandle_well_formed [OF assms(1)]
    by (auto simp: handleCommand_def answer_success_def
        split: option.splits exec.splits prod.splits if_splits)
next
  case (deleteAccountCommand source secret)
  with assms show ?thesis
    using Server_DeleteAccount_well_formed [OF assms(1)]
    by (auto simp: handleCommand_def answer_success_def
        split: option.splits exec.splits prod.splits if_splits)
next
  case terminateCommand
  with assms show ?thesis by (simp add: handleCommand_def)
qed

lemma Server_SendCommand_well_formed:
  assumes "well_formed (persistence s)"
    and "Server_SendCommand s rand now source args = Some (Return (r, s'))"
  shows "well_formed (persistence s')"
  using assms handleCommand_well_formed [OF assms(1)]
  by (auto simp: Server_SendCommand_def
      split: submission.splits option.splits exec.splits handled.splits)

lemma reachable_well_formed: "reachable s \<Longrightarrow> well_formed (persistence s)"
proof (induction rule: reachable.induct)
  case (opened p)
  show ?case by (simp add: well_formed_open)
next
  case (command s rand now source args r s')
  then show ?case
    using Server_SendCommand_well_formed by blast
next
  case (world s p)
  then show ?case by simp
qed

lemma reachable_static_buckets:
  "reachable s \<Longrightarrow>
     tx_Bucket (persistence s) targetsBucketName \<noteq> None \<and>
     tx_Bucket (persistence s) accountsBucketName \<noteq> None \<and>
     tx_Bucket (persistence s) handlesBucketName \<noteq> None"
  using reachable_well_formed [of s] by (auto simp: well_formed_iff tx_Bucket_def)

subsection \<open>A run of the server\<close>

lemma generate_const:
  "generateRandomString 64 (zeros k) = Return (Inr secret_a)"
  "generateRandomString 64 (ones k) = Return (Inr secret_b)"
  "generateRandomString 18 (twos k) = Return (Inr handle_c)"
  by (simp_all add: zeros_def ones_def twos_def generateRandomString_fills indexMask_eq
      allowedCharactersNum_eq allowedCharacters_def map_replicate_const
      secret_a_def secret_b_def handle_c_def)

lemma secret_a_less: "secret_a < secret_b"
  by (simp add: secret_a_def secret_b_def numeral_eq_Suc)

lemma token_props:
  "secret_a \<noteq> []" "secret_a \<noteq> targetsBucketName"
  "secret_a \<noteq> accountsBucketName" "secret_a \<noteq> handlesBucketName"
  "secret_b \<noteq> []" "secret_b \<noteq> targetsBucketName"
  "secret_b \<noteq> accountsBucketName" "secret_b \<noteq> handlesBucketName"
  "secret_a \<noteq> secret_b" "secret_b \<noteq> secret_a" "handle_c \<noteq> []"
  "secret_a < secret_b" "\<not> secret_b < secret_a"
  "length secret_a = 64" "length secret_b = 64" "length handle_c = 18" "length timestamp = 20"
  using secret_a_less
  by (auto simp: secret_a_def secret_b_def handle_c_def bucket_names timestamp_def
      dest: arg_cong [where f = length])

lemmas run_states = db_a_def db_ab_def db_abc_def db_ab_orphan_def OpenIncognitoData_def

lemma Server_NewAccount_a:
  "Server_NewAccount server_new accountTarget zeros (Inr timestamp)
     = Some (Return ((secret_a, None), server_new\<lparr>persistence := db_a\<rparr>))"
proof -
  have u: "unused_secret OpenIncognitoData zeros 0 = Some (Return (Inr secret_a))"
    using token_props
    by (subst unused_secret.simps)
       (simp add: generate_const accountSecretSize_def HasAccount_def bolt_defs
         OpenIncognitoData_def)
  have "NewAccount OpenIncognitoData secret_a accountTarget (Inr timestamp) = Return (db_a, None)"
    using token_props
    by (simp add: NewAccount_def NewAccount_tx_def bolt_defs run_states test_data bucket_names)
  then show ?thesis
    by (simp add: Server_NewAccount_def server_new_def u)
qed

lemma Server_NewAccount_b:
  "Server_NewAccount (server_new\<lparr>persistence := db_a\<rparr>) otherTarget ones (Inr timestamp)
     = Some (Return ((secret_b, None), server_new\<lparr>persistence := db_ab\<rparr>))"
proof -
  have u: "unused_secret db_a ones 0 = Some (Return (Inr secret_b))"
    using token_props
    by (subst unused_secret.simps)
       (simp add: generate_const accountSecretSize_def HasAccount_def bolt_defs run_states)
  have "NewAccount db_a secret_b otherTarget (Inr timestamp) = Return (db_ab, None)"
    using token_props
    by (simp add: NewAccount_def NewAccount_tx_def bolt_defs run_states test_data bucket_names
        fun_eq_iff)
  then show ?thesis
    by (simp add: Server_NewAccount_def server_new_def u)
qed

lemma Server_NewHandle_c:
  "Server_NewHandle (server_new\<lparr>persistence := db_ab\<rparr>) secret_b twos (Inr timestamp)
     = Some (Return ((handle_c @ ''@incognito.test'', None), server_abc))"
proof -
  have g: "GetAccountTarget db_ab secret_b = Return (Inr otherTarget)"
    using token_props
    by (simp add: GetAccountTarget_def bolt_defs run_states bucket_names)
  have u: "unused_handle db_ab twos 0 = Some (Return (Inr handle_c))"
    using token_props
    by (subst unused_handle.simps)
       (simp add: generate_const handleSize_def HasHandleGlobal_def bolt_defs run_states
         bucket_names)
  have n: "NewAccountHandle db_ab secret_b handle_c (Inr timestamp) = Return (db_abc, None)"
    using token_props
    by (simp add: NewAccountHandle_def NewAccountHandle_tx_def bolt_defs run_states bucket_names
        fun_eq_iff)
  have a: "AddHandle writer_new handle_c otherTarget =
      (writer_c, Inr (handle_c @ ''@incognito.test''))"
    by (simp add: AddHandle_def invokePostmap_def writer_new_def writer_c_def write_lines_def
        Let_def)
  show ?thesis
    by (simp add: Server_NewHandle_def server_new_def server_abc_def g u n a)
qed

text \<open>
  The first account deletes, through the server, the handle of the second: the
  call succeeds, the handle leaves the handles bucket but not the bucket of its
  owner, and its line leaves the map file.
\<close>

lemma Server_DeleteHandle_c:
  "Server_DeleteHandle server_abc secret_a handle_c = Return (None, server_orphan)"
proof -
  have h: "HasAccount db_abc secret_a = Return True"
    using token_props
    by (simp add: HasAccount_def bolt_defs run_states bucket_names)
  have d: "DeleteAccountHandle db_abc secret_a handle_c = Return db_ab_orphan"
    using token_props
    by (simp add: DeleteAccountHandle_def DeleteAccountHandle_tx_def bolt_defs run_states
        bucket_names fun_eq_iff)
  have "scan_tokens (write_lines [handle_c @ ''@incognito.test'' @ '' '' @ otherTarget])
      = [handle_c @ ''@incognito.test'' @ '' '' @ otherTarget]"
    by (rule scan_tokens_write_lines)
       (simp add: handle_c_def otherTarget_def MaxScanTokenSize_def dropCR_def)
  then have r: "RemoveHandle writer_c handle_c = (writer_gone, None)"
    by (simp add: RemoveHandle_def invokePostmap_def writer_c_def writer_gone_def writer_new_def
        Let_def)
  show ?thesis
    by (simp add: Server_DeleteHandle_def server_abc_def server_orphan_def h d r)
qed

lemma Fields_commands:
  "Fields ''new account testtarget@example.com'' = [''new'', ''account'', accountTarget]"
  "Fields ''new account other@example.com'' = [''new'', ''account'', otherTarget]"
  "Fields (''new handle '' @ secret_b) = [''new'', ''handle'', secret_b]"
  "Fields (''delete handle '' @ handle_c @ '' '' @ secret_a) =
     [''delete'', ''handle'', handle_c, secret_a]"
  by (simp_all add: Fields_def split_fields.simps space_width_def test_data secret_a_def
      secret_b_def handle_c_def numeral_eq_Suc)

lemma command_1:
  "Server_SendCommand server_new zeros (Inr timestamp) ''rpc''
     ''new account testtarget@example.com''
   = Some (Return ((secret_a, None), server_new\<lparr>persistence := db_a\<rparr>))"
  by (simp add: Server_SendCommand_def submit_def Fields_commands handleCommand_def answer_def
      Server_NewAccount_a)

lemma command_2:
  "Server_SendCommand (server_new\<lparr>persistence := db_a\<rparr>) ones (Inr timestamp) ''rpc''
     ''new account other@example.com''
   = Some (Return ((secret_b, None), server_new\<lparr>persistence := db_ab\<rparr>))"
  by (simp add: Server_SendCommand_def submit_def Fields_commands handleCommand_def answer_def
      Server_NewAccount_b)

lemma command_3:
  "Server_SendCommand (server_new\<lparr>persistence := db_ab\<rparr>) twos (Inr timestamp) ''websocket''
     (''new handle '' @ secret_b)
   = Some (Return ((handle_c @ ''@incognito.test'', None), server_abc))"
  unfolding Server_SendCommand_def submit_def Fields_commands
  by (simp add: handleCommand_def answer_def Server_NewHandle_c)

lemma command_4:
  "Server_SendCommand server_abc twos (Inr timestamp) ''rpc''
     (''delete handle '' @ handle_c @ '' '' @ secret_a)
   = Some (Return ((''success'', None), server_orphan))"
  unfolding Server_SendCommand_def submit_def Fields_commands
  by (simp add: handleCommand_def answer_success_def Server_DeleteHandle_c)

lemma reachable_abc: "reachable server_abc"
proof -
  have "reachable server_new"
    unfolding server_new_def by (rule reachable.opened)
  then have "reachable (server_new\<lparr>persistence := db_a\<rparr>)"
    using command_1 by (rule reachable.command)
  then have "reachable (server_new\<lparr>persistence := db_ab\<rparr>)"
    using command_2 by (rule reachable.command)
  then show ?thesis
    using command_3 by (rule reachable.command)
qed

text \<open>
  The four commands leave the server in a state where the second account still
  lists its handle and the handles bucket does not have it.
\<close>

lemma reachable_orphan:
  "reachable server_orphan \<and>
   HasAccount (persistence server_orphan) secret_b = Return True \<and>
   ListAccountHandles (persistence server_orphan) secret_b = Return (Inr [handle_c]) \<and>
   HasHandleGlobal (persistence server_orphan) handle_c = Return False"
proof -
  have "reachable server_orphan"
    using reachable_abc command_4 by (rule reachable.command)
  then show ?thesis
    using token_props
    by (simp add: server_orphan_def HasAccount_def ListAccountHandles_def HasHandleGlobal_def
        bolt_defs run_states bucket_names)
qed

subsection \<open>Deleting a handle through the server\<close>

lemma DeleteAccountHandle_returns:
  "db handlesBucketName \<noteq> None \<Longrightarrow> \<exists>db'. DeleteAccountHandle db secret handle = Return db'"
  by (auto simp: DeleteAccountHandle_def DeleteAccountHandle_tx_def bolt_defs
      split: option.splits)

lemma Server_DeleteHandle_succeeds:
  assumes "HasAccount (persistence s) secret = Return True"
    and "tx_Bucket (persistence s) handlesBucketName \<noteq> None"
  shows "\<exists>s'. Server_DeleteHandle s secret handle = Return (None, s')"
proof -
  from assms(2) obtain db' where
    "DeleteAccountHandle (persistence s) secret handle = Return db'"
    using DeleteAccountHandle_returns [of "persistence s" secret handle]
    by (auto simp: tx_Bucket_def)
  with assms(1) show ?thesis
    by (auto simp: Server_DeleteHandle_def split: prod.splits)
qed

text \<open>
  C10: in every state the server reaches, when \<^verbatim>\<open>HasAccount\<close> is true for the
  secret, \<^verbatim>\<open>DeleteHandle\<close> returns no error for any handle, and the command loop
  answers a delete-handle command from any source but \<^verbatim>\<open>"websocket"\<close> with
  \<^verbatim>\<open>"success"\<close> and no error. No function of persistence.go, of the writer or of
  the server returns \<open>ErrHandleNotFound\<close>.
\<close>

theorem DeleteHandle_always_success:
  "(reachable s \<and> HasAccount (persistence s) secret = Return True \<longrightarrow>
      (\<exists>s'. Server_DeleteHandle s secret handle = Return (None, s') \<and>
         (source \<noteq> ''websocket'' \<longrightarrow>
            handleCommand s rand now (deleteHandleCommand source handle secret)
              = Some (Return (Answered ''success'' None s'))))) \<and>
   NewAccount db a b now \<noteq> Return (db', Some ErrHandleNotFound) \<and>
   NewAccountHandle db a b now \<noteq> Return (db', Some ErrHandleNotFound) \<and>
   GetAccountTarget db a \<noteq> Return (Inl ErrHandleNotFound) \<and>
   ListAccountHandles db a \<noteq> Return (Inl ErrHandleNotFound) \<and>
   RemoveHandle p a \<noteq> (p', Some ErrHandleNotFound) \<and>
   AddHandle p a b \<noteq> (p', Inl ErrHandleNotFound) \<and>
   Server_NewHandle s a rand now \<noteq> Some (Return ((res, Some ErrHandleNotFound), t)) \<and>
   Server_NewAccount s a rand now \<noteq> Some (Return ((res, Some ErrHandleNotFound), t)) \<and>
   Server_DeleteHandle s a b \<noteq> Return (Some ErrHandleNotFound, t) \<and>
   Server_DeleteAccount s a \<noteq> Return (Some ErrHandleNotFound, t) \<and>
   Server_ListHandles s a \<noteq> Return (Inl ErrHandleNotFound) \<and>
   handleCommand s rand now cmd \<noteq> Some (Return (Answered res (Some ErrHandleNotFound) t)) \<and>
   Server_SendCommand s rand now source args \<noteq> Some (Return ((res, Some ErrHandleNotFound), t))"
proof -
  have first: "reachable s \<and> HasAccount (persistence s) secret = Return True \<longrightarrow>
      (\<exists>s'. Server_DeleteHandle s secret handle = Return (None, s') \<and>
         (source \<noteq> ''websocket'' \<longrightarrow>
            handleCommand s rand now (deleteHandleCommand source handle secret)
              = Some (Return (Answered ''success'' None s'))))"
  proof
    assume a: "reachable s \<and> HasAccount (persistence s) secret = Return True"
    then have "tx_Bucket (persistence s) handlesBucketName \<noteq> None"
      using reachable_static_buckets by blast
    with a obtain s' where "Server_DeleteHandle s secret handle = Return (None, s')"
      using Server_DeleteHandle_succeeds by blast
    then show "\<exists>s'. Server_DeleteHandle s secret handle = Return (None, s') \<and>
         (source \<noteq> ''websocket'' \<longrightarrow>
            handleCommand s rand now (deleteHandleCommand source handle secret)
              = Some (Return (Answered ''success'' None s')))"
      by (auto simp: handleCommand_def answer_success_def)
  qed
  show ?thesis
    by (intro conjI first NewAccount_err NewAccountHandle_err GetAccountTarget_err
        ListAccountHandles_err RemoveHandle_err AddHandle_err Server_NewHandle_err
        Server_NewAccount_err Server_DeleteHandle_err Server_DeleteAccount_err
        Server_ListHandles_err handleCommand_err Server_SendCommand_err)
qed

text \<open>
  In the run above, after the second account got its handle, the first account
  deletes that handle, and a handle that no account has, with success.
\<close>

theorem DeleteHandle_always_success_witness:
  "reachable server_abc \<and>
   HasAccount (persistence server_abc) secret_a = Return True \<and>
   (\<exists>s'. Server_DeleteHandle server_abc secret_a handle_c = Return (None, s') \<and>
      handleCommand server_abc twos (Inr timestamp) (deleteHandleCommand ''rpc'' handle_c secret_a)
        = Some (Return (Answered ''success'' None s'))) \<and>
   (\<exists>s'. Server_DeleteHandle server_abc secret_a ''nosuchhandle'' = Return (None, s') \<and>
      handleCommand server_abc twos (Inr timestamp)
          (deleteHandleCommand ''rpc'' ''nosuchhandle'' secret_a)
        = Some (Return (Answered ''success'' None s')))"
proof -
  have h: "HasAccount (persistence server_abc) secret_a = Return True"
    using token_props
    by (simp add: server_abc_def HasAccount_def bolt_defs run_states bucket_names)
  show ?thesis
    using
      DeleteHandle_always_success [of server_abc secret_a handle_c "''rpc''" twos "Inr timestamp"]
      DeleteHandle_always_success [of server_abc secret_a "''nosuchhandle''" "''rpc''" twos
        "Inr timestamp"]
      reachable_abc h
    by simp
qed

end
